theory Spec2Isabelle
  imports Complex_Main
begin

section \<open>Tensors, devices and errors\<close>

text \<open>
  The source is \<^verbatim>\<open>Mask_RCNN/net/RegionOfInterest/RoIHeads.py\<close>. A torch tensor is
  modelled by the device it lives on, the shape of one row (the sizes after dimension 0)
  and the list of its rows along dimension 0. A box is a row of four coordinates
  \<open>(x1, y1, x2, y2)\<close>. Index tensors hold positions, so their rows are naturals.
  A zero-dimensional tensor (a loss value) is a \<open>scalar\<close>.
\<close>

datatype device = CPU | CUDA nat

datatype error = IndexError | RuntimeError | KeyError | ValueError

record 'a tensor =
  device :: device
  row_shape :: "nat list"
  rows :: "'a list"

record scalar =
  sdevice :: device
  sval :: real

type_synonym box = "real \<times> real \<times> real \<times> real"

type_synonym mask = "real list list"

definition shape :: "'a tensor \<Rightarrow> nat list" where
  "shape t = length (rows t) # row_shape t"

text \<open>Sequencing of computations that may raise: the first error wins.\<close>

definition ebind :: "error + 'a \<Rightarrow> ('a \<Rightarrow> error + 'b) \<Rightarrow> error + 'b" where
  "ebind m f = (case m of Inl e \<Rightarrow> Inl e | Inr x \<Rightarrow> f x)"

text \<open>
  \<^verbatim>\<open>torch.cat(ts)\<close> along dimension 0: raises on an empty list and on tensors of
  different devices; the rows are appended in order. (The size check on the trailing
  dimensions is not modelled.)
\<close>

definition cat :: "'a tensor list \<Rightarrow> error + 'a tensor" where
  "cat ts = (case ts of
       [] \<Rightarrow> Inl RuntimeError
     | t # _ \<Rightarrow> if \<forall>u \<in> set ts. device u = device t
                then Inr (t\<lparr>rows := concat (map rows ts)\<rparr>)
                else Inl RuntimeError)"

text \<open>
  \<^verbatim>\<open>t[idx]\<close> with an index tensor: a new tensor with one row per index; an index
  past the end raises \<^verbatim>\<open>IndexError\<close>.
\<close>

definition index_select :: "'a tensor \<Rightarrow> nat tensor \<Rightarrow> error + 'a tensor" where
  "index_select t idx =
     (if \<forall>i \<in> set (rows idx). i < length (rows t)
      then Inr (t\<lparr>rows := map (\<lambda>i. rows t ! i) (rows idx)\<rparr>)
      else Inl IndexError)"

text \<open>
  \<^verbatim>\<open>t[keep]\<close> with a boolean tensor: the rows whose flag is set; the flags must
  cover dimension 0 exactly.
\<close>

definition mask_select :: "'a tensor \<Rightarrow> bool tensor \<Rightarrow> error + 'a tensor" where
  "mask_select t keep =
     (if length (rows keep) = length (rows t)
      then Inr (t\<lparr>rows := map fst (filter snd (zip (rows t) (rows keep)))\<rparr>)
      else Inl IndexError)"

text \<open>\<^verbatim>\<open>t[:n]\<close> for a count \<open>n\<close>.\<close>

definition slice_to :: "nat \<Rightarrow> 'a tensor \<Rightarrow> 'a tensor" where
  "slice_to n t = t\<lparr>rows := take n (rows t)\<rparr>"

text \<open>\<^verbatim>\<open>t[n:] = v\<close>: every row from position \<open>n\<close> on is overwritten.\<close>

definition fill_from :: "nat \<Rightarrow> 'a \<Rightarrow> 'a tensor \<Rightarrow> 'a tensor" where
  "fill_from n v t = t\<lparr>rows := take n (rows t) @ replicate (length (rows t) - n) v\<rparr>"

text \<open>\<^verbatim>\<open>t[:, c]\<close> on a tensor whose rows are sequences.\<close>

definition column :: "nat \<Rightarrow> 'a list tensor \<Rightarrow> error + 'a tensor" where
  "column c t =
     (if \<forall>r \<in> set (rows t). c < length r
      then Inr \<lparr>device = device t, row_shape = drop 1 (row_shape t),
                rows = map (\<lambda>r. r ! c) (rows t)\<rparr>
      else Inl IndexError)"

text \<open>\<^verbatim>\<open>torch.full((n,), v, device=d)\<close>.\<close>

definition full :: "nat \<Rightarrow> 'a \<Rightarrow> device \<Rightarrow> 'a tensor" where
  "full n v d = \<lparr>device = d, row_shape = [], rows = replicate n v\<rparr>"

section \<open>Collaborators and the RoIHeads object\<close>

text \<open>The ground truth of one image: \<^verbatim>\<open>target['boxes']\<close>, \<^verbatim>\<open>target['labels']\<close>
  and, when the data set has masks, \<^verbatim>\<open>target['masks']\<close>.\<close>

record 'gm target =
  boxes :: "box tensor"
  labels :: "int tensor"
  masks :: "'gm option"

record box_coder =
  encode :: "box tensor \<Rightarrow> box tensor \<Rightarrow> box tensor"
  decode :: "box tensor \<Rightarrow> box tensor \<Rightarrow> box tensor"

text \<open>
  The names the module imports. Their code is outside the file, so they are parameters:
  the utilities of the repository, the loss functions, torchvision's \<^verbatim>\<open>nms\<close>, and
  the device on which torch creates a tensor when no device is given. Two more belong
  to torch's floating-point arithmetic, which the model does not fix:
  \<^verbatim>\<open>F.softmax\<close> on one row of logits, as computed in the dtype of the tensor, and
  the value a Python float takes when torch converts it to the dtype of the scores it
  is compared with (\<open>to_dtype\<close>).
\<close>

record 'gm externals =
  box_iou :: "box tensor \<Rightarrow> box tensor \<Rightarrow> real list tensor"
  Matcher :: "real \<Rightarrow> real \<Rightarrow> real list tensor \<Rightarrow> int tensor \<times> nat tensor"
  BalancedPositiveNegativeSampler :: "nat \<Rightarrow> real \<Rightarrow> int tensor \<Rightarrow> nat tensor \<times> nat tensor"
  BoxCoder :: "real \<times> real \<times> real \<times> real \<Rightarrow> box_coder"
  process_box :: "box tensor \<Rightarrow> real tensor \<Rightarrow> nat \<times> nat \<Rightarrow> real \<Rightarrow> box tensor \<times> real tensor"
  nms :: "box tensor \<Rightarrow> real tensor \<Rightarrow> real \<Rightarrow> nat tensor"
  detection_loss :: "real list tensor \<Rightarrow> real list tensor \<Rightarrow> int tensor \<Rightarrow> box tensor \<Rightarrow> scalar \<times> scalar"
  mask_loss :: "mask list tensor \<Rightarrow> box tensor \<Rightarrow> nat tensor \<Rightarrow> int tensor \<Rightarrow> 'gm \<Rightarrow> scalar"
  default_device :: device
  softmax :: "real list \<Rightarrow> real list"
  to_dtype :: "real \<Rightarrow> real"

record ('f, 'pf, 'mf) roi_heads =
  box_roi_pool :: "'f \<Rightarrow> box tensor \<Rightarrow> nat \<times> nat \<Rightarrow> 'pf"
  box_predictor :: "'pf \<Rightarrow> real list tensor \<times> real list tensor"
  mask_roi_pool :: "('f \<Rightarrow> box tensor \<Rightarrow> nat \<times> nat \<Rightarrow> 'mf) option"
  mask_predictor :: "('mf \<Rightarrow> mask list tensor) option"
  train_mode :: bool
  proposal_matcher :: "real list tensor \<Rightarrow> int tensor \<times> nat tensor"
  fg_bg_sampler :: "int tensor \<Rightarrow> nat tensor \<times> nat tensor"
  box_coder :: box_coder
  score_thresh :: real
  nms_thresh :: real
  num_detections :: nat
  min_size :: real

text \<open>\<^verbatim>\<open>RoIHeads.__init__\<close> (lines 14-38).\<close>

definition init ::
  "'gm externals \<Rightarrow> ('f \<Rightarrow> box tensor \<Rightarrow> nat \<times> nat \<Rightarrow> 'pf) \<Rightarrow>
   ('pf \<Rightarrow> real list tensor \<times> real list tensor) \<Rightarrow> real \<Rightarrow> real \<Rightarrow> nat \<Rightarrow> real \<Rightarrow>
   real \<times> real \<times> real \<times> real \<Rightarrow> real \<Rightarrow> real \<Rightarrow> nat \<Rightarrow> bool \<Rightarrow> ('f, 'pf, 'mf) roi_heads" where
  "init ext box_roi_pool' box_predictor' fg_iou_thresh bg_iou_thresh num_samples
        positive_fraction reg_weights score_thresh' nms_thresh' num_detections' train_mode' =
     \<lparr>box_roi_pool = box_roi_pool',
      box_predictor = box_predictor',
      mask_roi_pool = None,
      mask_predictor = None,
      train_mode = train_mode',
      proposal_matcher = Matcher ext fg_iou_thresh bg_iou_thresh,
      fg_bg_sampler = BalancedPositiveNegativeSampler ext num_samples positive_fraction,
      box_coder = BoxCoder ext reg_weights,
      score_thresh = score_thresh',
      nms_thresh = nms_thresh',
      num_detections = num_detections',
      min_size = 1\<rparr>"

section \<open>Sample selection (training)\<close>

text \<open>\<^verbatim>\<open>RoIHeads.select_training_samples\<close> (lines 40-57).\<close>

definition select_training_samples ::
  "('f, 'pf, 'mf) roi_heads \<Rightarrow> 'gm externals \<Rightarrow> box tensor \<Rightarrow> 'gm target \<Rightarrow>
   error + (box tensor \<times> nat tensor \<times> int tensor \<times> box tensor)" where
  "select_training_samples self ext proposal target =
     (let gt_box = boxes target;
          gt_label = labels target
      in ebind (cat [proposal, gt_box]) (\<lambda>proposal.
         let iou = box_iou ext gt_box proposal;
             (pos_neg_label, matched_idx) = proposal_matcher self iou;
             (pos_idx, neg_idx) = fg_bg_sampler self pos_neg_label
         in ebind (cat [pos_idx, neg_idx]) (\<lambda>idx.
            ebind (index_select matched_idx pos_idx) (\<lambda>matched_pos.
            ebind (index_select gt_box matched_pos) (\<lambda>gt_pos.
            ebind (index_select proposal pos_idx) (\<lambda>proposal_pos.
            let regression_target = encode (box_coder self) gt_pos proposal_pos
            in ebind (index_select proposal idx) (\<lambda>proposal.
               ebind (index_select matched_idx idx) (\<lambda>matched_idx.
               ebind (index_select gt_label matched_idx) (\<lambda>label.
               let num_pos = length (rows pos_idx);
                   label = fill_from num_pos 0 label
               in Inr (proposal, matched_idx, label, regression_target))))))))))"

text \<open>
  Names for the intermediate values of a call: the post-concatenation proposal set
  (line 43), the matched-index array of the matcher (line 46) and the index sets
  of the sampler (line 47).
\<close>

definition combined :: "box tensor \<Rightarrow> 'gm target \<Rightarrow> box tensor" where
  "combined proposal target = proposal\<lparr>rows := rows proposal @ rows (boxes target)\<rparr>"

definition matched_of ::
  "('f, 'pf, 'mf) roi_heads \<Rightarrow> 'gm externals \<Rightarrow> box tensor \<Rightarrow> 'gm target \<Rightarrow> nat tensor" where
  "matched_of self ext proposal target =
     snd (proposal_matcher self (box_iou ext (boxes target) (combined proposal target)))"

definition sampled_of ::
  "('f, 'pf, 'mf) roi_heads \<Rightarrow> 'gm externals \<Rightarrow> box tensor \<Rightarrow> 'gm target \<Rightarrow>
   nat tensor \<times> nat tensor" where
  "sampled_of self ext proposal target =
     fg_bg_sampler self
       (fst (proposal_matcher self (box_iou ext (boxes target) (combined proposal target))))"

text \<open>The box coder returns one regression target per pair of rows.\<close>

definition encode_rowwise :: "box_coder \<Rightarrow> bool" where
  "encode_rowwise c \<longleftrightarrow>
     (\<forall>a b. length (rows a) = length (rows b) \<longrightarrow> length (rows (encode c a b)) = length (rows b))"

section \<open>Detection (inference)\<close>

text \<open>\<^verbatim>\<open>x.sigmoid()\<close> on one element.\<close>

definition sigmoid :: "real \<Rightarrow> real" where
  "sigmoid x = 1 / (1 + exp (- x))"

text \<open>
  \<^verbatim>\<open>box_regression.reshape(N, -1, 4)\<close>: the elements are regrouped in order into
  \<open>N\<close> rows of boxes. torch raises when the missing dimension cannot be inferred:
  \<open>N * 4 = 0\<close>, or a number of elements that \<open>N * 4\<close> does not divide.
\<close>

definition reshape_boxes :: "nat \<Rightarrow> real list tensor \<Rightarrow> error + box list tensor" where
  "reshape_boxes N t =
     (let flat = concat (rows t);
          numel = length flat
      in if N * 4 = 0 \<or> numel mod (N * 4) \<noteq> 0 then Inl RuntimeError
         else let k = numel div (N * 4)
              in Inr \<lparr>device = device t, row_shape = [k, 4],
                      rows = map (\<lambda>i. map (\<lambda>j. let q = (i * k + j) * 4
                                               in (flat ! q, flat ! (q + 1), flat ! (q + 2), flat ! (q + 3)))
                                        [0..<k])
                                 [0..<N]\<rparr>)"

text \<open>The body of the loop over the foreground classes (lines 70-84). The comparison
  \<^verbatim>\<open>score >= self.score_thresh\<close> of line 72 is made in the dtype of the scores:
  torch converts the Python float to it first.\<close>

definition detect_class ::
  "('f, 'pf, 'mf) roi_heads \<Rightarrow> 'gm externals \<Rightarrow> device \<Rightarrow> real list tensor \<Rightarrow>
   box list tensor \<Rightarrow> box tensor \<Rightarrow> nat \<times> nat \<Rightarrow> nat \<Rightarrow>
   error + (box tensor \<times> int tensor \<times> real tensor)" where
  "detect_class self ext dev pred_score box_regression proposal image_shape image_class =
     ebind (column image_class pred_score) (\<lambda>score.
     ebind (column image_class box_regression) (\<lambda>box_delta.
     let keep = \<lparr>device = device score, row_shape = row_shape score,
                 rows = map (\<lambda>s. to_dtype ext (score_thresh self) \<le> s) (rows score)\<rparr>
     in ebind (mask_select proposal keep) (\<lambda>box.
        ebind (mask_select score keep) (\<lambda>score.
        ebind (mask_select box_delta keep) (\<lambda>box_delta.
        let box = decode (box_coder self) box_delta box;
            (box, score) = process_box ext box score image_shape (min_size self);
            keep = slice_to (num_detections self) (nms ext box score (nms_thresh self))
        in ebind (index_select box keep) (\<lambda>box.
           ebind (index_select score keep) (\<lambda>score.
           let label = full (length (rows keep)) (int image_class) dev
           in Inr (box, label, score))))))))"

text \<open>The loop \<^verbatim>\<open>for image_class in range(1, num_classes)\<close> with its three
  accumulators (lines 66-84).\<close>

fun detect_loop ::
  "('f, 'pf, 'mf) roi_heads \<Rightarrow> 'gm externals \<Rightarrow> device \<Rightarrow> real list tensor \<Rightarrow>
   box list tensor \<Rightarrow> box tensor \<Rightarrow> nat \<times> nat \<Rightarrow> nat list \<Rightarrow>
   box tensor list \<Rightarrow> int tensor list \<Rightarrow> real tensor list \<Rightarrow>
   error + (box tensor list \<times> int tensor list \<times> real tensor list)" where
  "detect_loop self ext dev pred_score box_regression proposal image_shape [] bs ls ss =
     Inr (bs, ls, ss)"
| "detect_loop self ext dev pred_score box_regression proposal image_shape (image_class # rest) bs ls ss =
     ebind (detect_class self ext dev pred_score box_regression proposal image_shape image_class)
       (\<lambda>(box, label, score).
          detect_loop self ext dev pred_score box_regression proposal image_shape rest
            (bs @ [box]) (ls @ [label]) (ss @ [score]))"

text \<open>The values a result dictionary holds, and the two dictionaries of \<^verbatim>\<open>forward\<close>.\<close>

datatype rvalue =
    BoxesV "box tensor"
  | IntsV "int tensor"
  | RealsV "real tensor"
  | MasksV "mask tensor"

type_synonym result = "string \<rightharpoonup> rvalue"

type_synonym losses = "string \<rightharpoonup> scalar"

text \<open>\<^verbatim>\<open>RoIHeads.detect\<close> (lines 59-87).\<close>

definition detect ::
  "('f, 'pf, 'mf) roi_heads \<Rightarrow> 'gm externals \<Rightarrow> real list tensor \<Rightarrow> real list tensor \<Rightarrow>
   box tensor \<Rightarrow> nat \<times> nat \<Rightarrow> error + result" where
  "detect self ext class_logit box_regression proposal image_shape =
     (case row_shape class_logit of
        [num_classes] \<Rightarrow>
          let N = length (rows class_logit);
              dev = device class_logit;
              pred_score = \<lparr>device = dev, row_shape = row_shape class_logit,
                            rows = map (softmax ext) (rows class_logit)\<rparr>
          in ebind (reshape_boxes N box_regression) (\<lambda>box_regression.
             ebind (detect_loop self ext dev pred_score box_regression proposal image_shape
                      [1..<num_classes] [] [] []) (\<lambda>(bs, ls, ss).
             ebind (cat bs) (\<lambda>b.
             ebind (cat ls) (\<lambda>l.
             ebind (cat ss) (\<lambda>s.
             Inr [''boxes'' \<mapsto> BoxesV b, ''labels'' \<mapsto> IntsV l, ''scores'' \<mapsto> RealsV s])))))
      | _ \<Rightarrow> Inl ValueError)"

section \<open>The forward pass\<close>

text \<open>The calls \<^verbatim>\<open>forward\<close> makes to the injected modules and to the loss
  functions are recorded in the order they happen.\<close>

datatype call =
    Call_box_roi_pool
  | Call_box_predictor
  | Call_detection_loss
  | Call_mask_roi_pool
  | Call_mask_predictor
  | Call_mask_loss

text \<open>
  \<^verbatim>\<open>mask_logit[idx, label]\<close> with \<^verbatim>\<open>idx = arange(len(label))\<close> (lines 130-131):
  for detection \<open>i\<close> the channel of its label; an index outside the tensor raises. A
  negative label counts from the last channel, as torch indexing does.
\<close>

definition select_channels :: "mask list tensor \<Rightarrow> int tensor \<Rightarrow> error + mask tensor" where
  "select_channels mask_logit label =
     (let n = length (rows label);
          chan = (\<lambda>i. let l = rows label ! i;
                           c = int (length (rows mask_logit ! i))
                       in if l < 0 then l + c else l)
      in if n \<le> length (rows mask_logit) \<and>
            (\<forall>i \<in> set [0..<n]. 0 \<le> chan i \<and> chan i < int (length (rows mask_logit ! i)))
         then Inr \<lparr>device = device mask_logit, row_shape = drop 1 (row_shape mask_logit),
                   rows = map (\<lambda>i. rows mask_logit ! i ! nat (chan i)) [0..<n]\<rparr>
         else Inl IndexError)"

text \<open>The mask branch, entered when both mask modules are set (lines 104-134).
  \<open>sel\<close> holds the values of sample selection in training mode.\<close>

definition mask_branch ::
  "'gm externals \<Rightarrow> ('f \<Rightarrow> box tensor \<Rightarrow> nat \<times> nat \<Rightarrow> 'mf) \<Rightarrow> ('mf \<Rightarrow> mask list tensor) \<Rightarrow>
   'f \<Rightarrow> box tensor \<Rightarrow> nat \<times> nat \<Rightarrow> 'gm target \<Rightarrow>
   (nat tensor \<times> int tensor \<times> box tensor) option \<Rightarrow> call list \<Rightarrow> result \<Rightarrow> losses \<Rightarrow>
   call list \<times> (error + result \<times> losses)" where
  "mask_branch ext mask_roi_pool' mask_predictor' feature proposal image_shape target sel
               calls result losses =
     (case sel of
        Some (matched_idx, label, regression_target) \<Rightarrow>
          let num_pos = length (rows regression_target);
              mask_proposal = slice_to num_pos proposal;
              pos_matched_idx = slice_to num_pos matched_idx;
              mask_label = slice_to num_pos label
          in if length (rows mask_proposal) = 0
             then (calls, Inr (result,
                     losses(''roi_mask_loss'' \<mapsto> \<lparr>sdevice = default_device ext, sval = 0\<rparr>)))
             else let mask_feature = mask_roi_pool' feature mask_proposal image_shape;
                      mask_logit = mask_predictor' mask_feature;
                      calls = calls @ [Call_mask_roi_pool, Call_mask_predictor]
                  in (case masks target of
                        None \<Rightarrow> (calls, Inl KeyError)
                      | Some gt_mask \<Rightarrow>
                          let m_loss = mask_loss ext mask_logit mask_proposal pos_matched_idx
                                         mask_label gt_mask
                          in (calls @ [Call_mask_loss],
                              Inr (result, losses(''roi_mask_loss'' \<mapsto> m_loss))))
      | None \<Rightarrow>
          (case result ''boxes'' of
             Some (BoxesV mask_proposal) \<Rightarrow>
               if length (rows mask_proposal) = 0
               then (calls, Inr (result(''masks'' \<mapsto>
                       MasksV \<lparr>device = default_device ext, row_shape = [28, 28], rows = []\<rparr>),
                       losses))
               else let mask_feature = mask_roi_pool' feature mask_proposal image_shape;
                        mask_logit = mask_predictor' mask_feature;
                        calls = calls @ [Call_mask_roi_pool, Call_mask_predictor]
                    in (case result ''labels'' of
                          Some (IntsV label) \<Rightarrow>
                            (case select_channels mask_logit label of
                               Inl e \<Rightarrow> (calls, Inl e)
                             | Inr mask_logit \<Rightarrow>
                                 let mask_prob = \<lparr>device = device mask_logit,
                                        row_shape = row_shape mask_logit,
                                        rows = map (map (map sigmoid)) (rows mask_logit)\<rparr>
                                 in (calls, Inr (result(''masks'' \<mapsto> MasksV mask_prob), losses)))
                        | _ \<Rightarrow> (calls, Inl KeyError))
           | _ \<Rightarrow> (calls, Inl KeyError)))"

text \<open>\<^verbatim>\<open>RoIHeads.forward\<close> (lines 89-136). The outcome is paired with the calls made,
  also when an error cuts the pass short.\<close>

definition forward ::
  "('f, 'pf, 'mf) roi_heads \<Rightarrow> 'gm externals \<Rightarrow> 'f \<Rightarrow> box tensor \<Rightarrow> nat \<times> nat \<Rightarrow>
   'gm target \<Rightarrow> call list \<times> (error + result \<times> losses)" where
  "forward self ext feature proposal image_shape target =
     (case (if train_mode self
            then map_sum id Some (select_training_samples self ext proposal target)
            else Inr None) of
        Inl e \<Rightarrow> ([], Inl e)
      | Inr sel \<Rightarrow>
          let proposal = (case sel of Some (p, _) \<Rightarrow> p | None \<Rightarrow> proposal);
              box_feature = box_roi_pool self feature proposal image_shape;
              (class_logit, box_regression) = box_predictor self box_feature;
              calls = [Call_box_roi_pool, Call_box_predictor]
          in (case (case sel of
                      Some (_, matched_idx, label, regression_target) \<Rightarrow>
                        let (classifier_loss, box_reg_loss) =
                              detection_loss ext class_logit box_regression label regression_target
                        in (calls @ [Call_detection_loss],
                            Inr (Map.empty, [''roi_classifier_loss'' \<mapsto> classifier_loss,
                                             ''roi_box_loss'' \<mapsto> box_reg_loss]))
                    | None \<Rightarrow>
                        (calls, map_sum id (\<lambda>result. (result, Map.empty))
                                  (detect self ext class_logit box_regression proposal image_shape))) of
                (calls, Inl e) \<Rightarrow> (calls, Inl e)
              | (calls, Inr (result, losses)) \<Rightarrow>
                  (case (mask_roi_pool self, mask_predictor self) of
                     (Some mask_roi_pool', Some mask_predictor') \<Rightarrow>
                       mask_branch ext mask_roi_pool' mask_predictor' feature proposal image_shape
                         target (map_option snd sel) calls result losses
                   | _ \<Rightarrow> (calls, Inr (result, losses)))))"

section \<open>Reference collaborators\<close>

text \<open>
  The utilities below are not part of the source file. They are written from the
  specification's description of each collaborator and serve as instances of the
  parameters in the example runs.
\<close>

definition box_area :: "box \<Rightarrow> real" where
  "box_area b = (case b of (x1, y1, x2, y2) \<Rightarrow> (x2 - x1) * (y2 - y1))"

definition box_inter :: "box \<Rightarrow> box \<Rightarrow> real" where
  "box_inter a b = (case a of (ax1, ay1, ax2, ay2) \<Rightarrow> case b of (bx1, by1, bx2, by2) \<Rightarrow>
     max 0 (min ax2 bx2 - max ax1 bx1) * max 0 (min ay2 by2 - max ay1 by1))"

text \<open>Modelled from the spec: the glossary's IoU, the overlap ratio between two boxes
  (intersection area over union area).\<close>

definition iou_pair :: "box \<Rightarrow> box \<Rightarrow> real" where
  "iou_pair a b = box_inter a b / (box_area a + box_area b - box_inter a b)"

text \<open>Modelled from the spec: \<^verbatim>\<open>box_iou\<close> of \<^verbatim>\<open>..Utils\<close>, the pairwise IoU
  between the ground-truth boxes (rows) and the proposals (columns).\<close>

definition ref_box_iou :: "box tensor \<Rightarrow> box tensor \<Rightarrow> real list tensor" where
  "ref_box_iou a b =
     \<lparr>device = device a, row_shape = [length (rows b)],
      rows = map (\<lambda>g. map (\<lambda>p. iou_pair g p) (rows b)) (rows a)\<rparr>"

fun first_index :: "('a \<Rightarrow> bool) \<Rightarrow> 'a list \<Rightarrow> nat" where
  "first_index P [] = 0"
| "first_index P (x # xs) = (if P x then 0 else Suc (first_index P xs))"

text \<open>Modelled from the spec: \<^verbatim>\<open>Matcher\<close> of \<^verbatim>\<open>..Utils\<close>. For each proposal
  (a column of the IoU matrix) it returns the index of the best-matching ground-truth
  box and a label: 1 (positive) at or above the foreground threshold, 0 (negative)
  below the background threshold, -1 (ignore) between them. It is meant for an IoU
  matrix with at least one row (one ground-truth box).\<close>

definition ref_Matcher :: "real \<Rightarrow> real \<Rightarrow> real list tensor \<Rightarrow> int tensor \<times> nat tensor" where
  "ref_Matcher high low iou =
     (let cols = map (\<lambda>j. map (\<lambda>r. r ! j) (rows iou)) [0..<hd (row_shape iou)];
          value = map (\<lambda>c. fold max c (hd c)) cols;
          matched_idx = map (\<lambda>c. first_index (\<lambda>v. v = fold max c (hd c)) c) cols;
          label = map (\<lambda>v. if v < low then 0 else if high \<le> v then 1 else - 1) value
      in (\<lparr>device = device iou, row_shape = [], rows = label\<rparr>,
          \<lparr>device = device iou, row_shape = [], rows = matched_idx\<rparr>))"

text \<open>Modelled from the spec: \<^verbatim>\<open>BalancedPositiveNegativeSampler\<close> of \<^verbatim>\<open>..Utils\<close>.
  It draws at most \<open>num_samples\<close> indices, the positives up to the target fraction.
  The random choice of the original is replaced by the first indices in order.\<close>

definition ref_Sampler :: "nat \<Rightarrow> real \<Rightarrow> int tensor \<Rightarrow> nat tensor \<times> nat tensor" where
  "ref_Sampler num_samples positive_fraction label =
     (let positive = filter (\<lambda>i. rows label ! i = 1) [0..<length (rows label)];
          negative = filter (\<lambda>i. rows label ! i = 0) [0..<length (rows label)];
          num_pos = min (length positive) (nat \<lfloor>real num_samples * positive_fraction\<rfloor>);
          num_neg = min (length negative) (num_samples - num_pos)
      in (\<lparr>device = device label, row_shape = [], rows = take num_pos positive\<rparr>,
          \<lparr>device = device label, row_shape = [], rows = take num_neg negative\<rparr>))"

text \<open>Modelled from the spec: \<^verbatim>\<open>BoxCoder\<close> of \<^verbatim>\<open>..Utils\<close>, the reversible
  transform between box coordinates and a weighted offset/scale delta relative to a
  reference box.\<close>

definition ref_encode :: "real \<times> real \<times> real \<times> real \<Rightarrow> box tensor \<Rightarrow> box tensor \<Rightarrow> box tensor" where
  "ref_encode weights reference_box proposal =
     proposal\<lparr>rows := map (\<lambda>(g, p).
        case weights of (wx, wy, ww, wh) \<Rightarrow>
        case g of (gx1, gy1, gx2, gy2) \<Rightarrow>
        case p of (px1, py1, px2, py2) \<Rightarrow>
          let width = px2 - px1; height = py2 - py1;
              ctr_x = px1 + width / 2; ctr_y = py1 + height / 2;
              gt_width = gx2 - gx1; gt_height = gy2 - gy1;
              gt_ctr_x = gx1 + gt_width / 2; gt_ctr_y = gy1 + gt_height / 2
          in (wx * (gt_ctr_x - ctr_x) / width, wy * (gt_ctr_y - ctr_y) / height,
              ww * ln (gt_width / width), wh * ln (gt_height / height)))
       (zip (rows reference_box) (rows proposal))\<rparr>"

definition ref_decode :: "real \<times> real \<times> real \<times> real \<Rightarrow> box tensor \<Rightarrow> box tensor \<Rightarrow> box tensor" where
  "ref_decode weights delta box =
     box\<lparr>rows := map (\<lambda>(d, b).
        case weights of (wx, wy, ww, wh) \<Rightarrow>
        case d of (dx, dy, dw, dh) \<Rightarrow>
        case b of (x1, y1, x2, y2) \<Rightarrow>
          let width = x2 - x1; height = y2 - y1;
              ctr_x = x1 + width / 2; ctr_y = y1 + height / 2;
              pred_ctr_x = dx / wx * width + ctr_x; pred_ctr_y = dy / wy * height + ctr_y;
              pred_w = exp (dw / ww) * width; pred_h = exp (dh / wh) * height
          in (pred_ctr_x - pred_w / 2, pred_ctr_y - pred_h / 2,
              pred_ctr_x + pred_w / 2, pred_ctr_y + pred_h / 2))
       (zip (rows delta) (rows box))\<rparr>"

definition ref_BoxCoder :: "real \<times> real \<times> real \<times> real \<Rightarrow> box_coder" where
  "ref_BoxCoder weights = \<lparr>encode = ref_encode weights, decode = ref_decode weights\<rparr>"

text \<open>Modelled from the spec: \<^verbatim>\<open>process_box\<close> of \<^verbatim>\<open>..Utils\<close>. It clips the boxes
  to the image bounds and drops the boxes below the minimum size, together with
  their scores.\<close>

definition ref_process_box ::
  "box tensor \<Rightarrow> real tensor \<Rightarrow> nat \<times> nat \<Rightarrow> real \<Rightarrow> box tensor \<times> real tensor" where
  "ref_process_box box score image_shape min_size' =
     (let clipped = map (\<lambda>(x1, y1, x2, y2).
                      (min (max x1 0) (real (snd image_shape)), min (max y1 0) (real (fst image_shape)),
                       min (max x2 0) (real (snd image_shape)), min (max y2 0) (real (fst image_shape))))
                    (rows box);
          kept = filter (\<lambda>((x1, y1, x2, y2), s). min_size' \<le> x2 - x1 \<and> min_size' \<le> y2 - y1)
                   (zip clipped (rows score))
      in (box\<lparr>rows := map fst kept\<rparr>, score\<lparr>rows := map snd kept\<rparr>))"

text \<open>Modelled from the spec: \<^verbatim>\<open>nms\<close> of torchvision, by the glossary "greedy removal
  of lower-scoring boxes that overlap a higher-scoring kept box beyond a threshold":
  the boxes are visited by decreasing score, and a box is kept unless its IoU with a
  box kept before it is greater than the threshold.\<close>

fun nms_scan :: "box list \<Rightarrow> real \<Rightarrow> nat list \<Rightarrow> nat list \<Rightarrow> nat list" where
  "nms_scan bs t kept [] = kept"
| "nms_scan bs t kept (i # rest) =
     (if \<forall>k \<in> set kept. iou_pair (bs ! k) (bs ! i) \<le> t
      then nms_scan bs t (kept @ [i]) rest
      else nms_scan bs t kept rest)"

definition ref_nms :: "box tensor \<Rightarrow> real tensor \<Rightarrow> real \<Rightarrow> nat tensor" where
  "ref_nms box score t =
     \<lparr>device = device box, row_shape = [],
      rows = nms_scan (rows box) t []
               (sort_key (\<lambda>i. - (rows score ! i)) [0..<length (rows box)])\<rparr>"

text \<open>Modelled from the spec: the softmax over the classes that gives the per-class
  confidence (section 4.2), in exact arithmetic.\<close>

definition ref_softmax :: "real list \<Rightarrow> real list" where
  "ref_softmax xs = map (\<lambda>x. exp x / sum_list (map exp xs)) xs"

text \<open>The rounding of a real number to single precision, the dtype of the predictions
  in the example runs: the nearest value with 24 significant bits. (The exponent
  range is not bounded, and a tie is rounded up.)\<close>

definition float32 :: "real \<Rightarrow> real" where
  "float32 x =
     (if x = 0 then 0
      else let e = \<lfloor>log 2 \<bar>x\<bar>\<rfloor>
           in real_of_int (round (x * 2 powr real_of_int (23 - e))) * 2 powr real_of_int (e - 23))"

text \<open>What the detection claims need of the two post-processing primitives:
  \<^verbatim>\<open>process_box\<close> returns scores it was given, and \<^verbatim>\<open>nms\<close> returns distinct
  positions of boxes of which no two overlap beyond the threshold.\<close>

definition process_box_selects ::
  "(box tensor \<Rightarrow> real tensor \<Rightarrow> nat \<times> nat \<Rightarrow> real \<Rightarrow> box tensor \<times> real tensor) \<Rightarrow> bool" where
  "process_box_selects pb \<longleftrightarrow>
     (\<forall>box score image_shape m. set (rows (snd (pb box score image_shape m))) \<subseteq> set (rows score))"

definition nms_contract :: "(box tensor \<Rightarrow> real tensor \<Rightarrow> real \<Rightarrow> nat tensor) \<Rightarrow> bool" where
  "nms_contract f \<longleftrightarrow>
     (\<forall>box score t.
        distinct (rows (f box score t)) \<and>
        (\<forall>i \<in> set (rows (f box score t)). \<forall>j \<in> set (rows (f box score t)).
           i \<noteq> j \<longrightarrow> iou_pair (rows box ! i) (rows box ! j) \<le> t))"

section \<open>Example runs\<close>

text \<open>The loss functions are outside the component; the examples use constant losses
  on the device of the predictions. The pooled feature of the examples already holds
  the outputs of the box head, and the mask head returns two channels of zero logits
  per box.\<close>

definition ex_ext :: "unit externals" where
  "ex_ext = \<lparr>box_iou = ref_box_iou, Matcher = ref_Matcher,
     BalancedPositiveNegativeSampler = ref_Sampler, BoxCoder = ref_BoxCoder,
     process_box = ref_process_box, nms = ref_nms,
     detection_loss = (\<lambda>c b l r. (\<lparr>sdevice = device c, sval = 1\<rparr>, \<lparr>sdevice = device c, sval = 1\<rparr>)),
     mask_loss = (\<lambda>ml p i l g. \<lparr>sdevice = device ml, sval = 1\<rparr>),
     default_device = CPU, softmax = ref_softmax, to_dtype = float32\<rparr>"

type_synonym ex_feature = "real list tensor \<times> real list tensor"

definition ex_box_roi_pool :: "ex_feature \<Rightarrow> box tensor \<Rightarrow> nat \<times> nat \<Rightarrow> ex_feature" where
  "ex_box_roi_pool feature box image_shape = feature"

definition ex_box_predictor :: "ex_feature \<Rightarrow> real list tensor \<times> real list tensor" where
  "ex_box_predictor box_feature = box_feature"

definition ex_mask_roi_pool :: "ex_feature \<Rightarrow> box tensor \<Rightarrow> nat \<times> nat \<Rightarrow> box tensor" where
  "ex_mask_roi_pool feature box image_shape = box"

definition ex_mask_predictor :: "box tensor \<Rightarrow> mask list tensor" where
  "ex_mask_predictor mask_feature =
     \<lparr>device = device mask_feature, row_shape = [2, 28, 28],
      rows = map (\<lambda>_. replicate 2 (replicate 28 (replicate 28 0))) (rows mask_feature)\<rparr>"

text \<open>A training image: two proposals, one ground-truth box of class 2 that overlaps
  the first proposal with IoU 2/3.\<close>

definition ex_train_heads :: "real \<Rightarrow> (ex_feature, ex_feature, box tensor) roi_heads" where
  "ex_train_heads positive_fraction =
     init ex_ext ex_box_roi_pool ex_box_predictor (1/2) (1/2) 4 positive_fraction
       (10, 10, 5, 5) (1/2) (1/2) 100 True"

definition ex_proposal :: "box tensor" where
  "ex_proposal = \<lparr>device = CPU, row_shape = [4], rows = [(0, 0, 10, 10), (20, 20, 30, 30)]\<rparr>"

definition ex_target :: "unit target" where
  "ex_target = \<lparr>boxes = \<lparr>device = CPU, row_shape = [4], rows = [(2, 0, 12, 10)]\<rparr>,
                labels = \<lparr>device = CPU, row_shape = [], rows = [2]\<rparr>,
                masks = Some ()\<rparr>"

definition ex_train_feature :: ex_feature where
  "ex_train_feature =
     (\<lparr>device = CPU, row_shape = [3], rows = [[0, 0, 0], [0, 0, 0], [0, 0, 0]]\<rparr>,
      \<lparr>device = CPU, row_shape = [12],
       rows = [[0, 0, 0, 0, 0, 0, 0, 0, 0, 0, 0, 0], [0, 0, 0, 0, 0, 0, 0, 0, 0, 0, 0, 0],
               [0, 0, 0, 0, 0, 0, 0, 0, 0, 0, 0, 0]]\<rparr>)"

text \<open>An inference image on a device \<open>d\<close>: two proposals whose IoU is exactly 1/2,
  with class-1 scores 3/4 and 1/2, and box deltas zero.\<close>

definition ex_infer_heads ::
  "real \<Rightarrow> real \<Rightarrow> (ex_feature, ex_feature, box tensor) roi_heads" where
  "ex_infer_heads score_thresh' nms_thresh' =
     init ex_ext ex_box_roi_pool ex_box_predictor (1/2) (1/2) 4 (1/4)
       (10, 10, 5, 5) score_thresh' nms_thresh' 100 False"

definition ex_infer_proposal :: "device \<Rightarrow> box tensor" where
  "ex_infer_proposal d = \<lparr>device = d, row_shape = [4], rows = [(0, 0, 2, 2), (0, 0, 2, 1)]\<rparr>"

definition ex_infer_feature :: "device \<Rightarrow> ex_feature" where
  "ex_infer_feature d =
     (\<lparr>device = d, row_shape = [2], rows = [[0, ln 3], [0, 0]]\<rparr>,
      \<lparr>device = d, row_shape = [8],
       rows = [[0, 0, 0, 0, 0, 0, 0, 0], [0, 0, 0, 0, 0, 0, 0, 0]]\<rparr>)"

text \<open>The same image with a class-1 score of the first proposal that is the single
  precision value nearest to 7/10, which lies below 7/10.\<close>

definition ex_tight_feature :: "device \<Rightarrow> ex_feature" where
  "ex_tight_feature d =
     (\<lparr>device = d, row_shape = [2], rows = [[0, ln (11744051/5033165)], [0, 0]]\<rparr>,
      snd (ex_infer_feature d))"

text \<open>The mask modules are assigned after construction.\<close>

definition with_masks ::
  "(ex_feature, ex_feature, box tensor) roi_heads \<Rightarrow> (ex_feature, ex_feature, box tensor) roi_heads" where
  "with_masks self = self\<lparr>mask_roi_pool := Some ex_mask_roi_pool,
                          mask_predictor := Some ex_mask_predictor\<rparr>"

section \<open>Properties of sample selection\<close>

subsection \<open>What a successful call returns\<close>

lemma ebind_Inr: "ebind m f = Inr y \<longleftrightarrow> (\<exists>x. m = Inr x \<and> f x = Inr y)"
  by (cases m) (simp_all add: ebind_def)

lemma cat2_Inr: "cat [a, b] = Inr c \<longleftrightarrow> device b = device a \<and> c = a\<lparr>rows := rows a @ rows b\<rparr>"
  by (auto simp: cat_def)

lemma index_select_Inr:
  "index_select t idx = Inr r \<longleftrightarrow>
     (\<forall>i \<in> set (rows idx). i < length (rows t)) \<and> r = t\<lparr>rows := map (\<lambda>i. rows t ! i) (rows idx)\<rparr>"
  by (auto simp: index_select_def)

lemma select_training_samples_Inr:
  assumes "select_training_samples self ext proposal target = Inr (sp, mi, lab, rt)"
  shows "\<exists>pos_idx neg_idx. sampled_of self ext proposal target = (pos_idx, neg_idx) \<and>
     device (boxes target) = device proposal \<and> device neg_idx = device pos_idx \<and>
     (\<forall>i \<in> set (rows pos_idx @ rows neg_idx).
         i < length (rows (combined proposal target)) \<and>
         i < length (rows (matched_of self ext proposal target)) \<and>
         rows (matched_of self ext proposal target) ! i < length (rows (labels target))) \<and>
     (\<forall>i \<in> set (rows pos_idx).
         rows (matched_of self ext proposal target) ! i < length (rows (boxes target))) \<and>
     sp = (combined proposal target)
            \<lparr>rows := map (\<lambda>i. rows (combined proposal target) ! i) (rows pos_idx @ rows neg_idx)\<rparr> \<and>
     mi = (matched_of self ext proposal target)
            \<lparr>rows := map (\<lambda>i. rows (matched_of self ext proposal target) ! i) (rows pos_idx @ rows neg_idx)\<rparr> \<and>
     lab = (labels target)
            \<lparr>rows := map (\<lambda>i. rows (labels target) ! (rows (matched_of self ext proposal target) ! i)) (rows pos_idx)
                @ replicate (length (rows neg_idx)) 0\<rparr> \<and>
     rt = encode (box_coder self)
            ((boxes target)\<lparr>rows := map (\<lambda>i. rows (boxes target) ! (rows (matched_of self ext proposal target) ! i)) (rows pos_idx)\<rparr>)
            ((combined proposal target)\<lparr>rows := map (\<lambda>i. rows (combined proposal target) ! i) (rows pos_idx)\<rparr>)"
  using assms
  unfolding select_training_samples_def sampled_of_def matched_of_def combined_def
  by (auto simp: Let_def ebind_Inr cat2_Inr index_select_Inr fill_from_def comp_def split: prod.splits)

text \<open>On well-formed input the call returns: the ground truth is on the device of
  the proposals, and the indices of the sampler and of the matcher are in range.\<close>

lemma select_training_samples_returns:
  assumes "device (boxes target) = device proposal"
    and "sampled_of self ext proposal target = (pos_idx, neg_idx)"
    and "device neg_idx = device pos_idx"
    and "\<forall>i \<in> set (rows pos_idx @ rows neg_idx).
           i < length (rows (combined proposal target)) \<and>
           i < length (rows (matched_of self ext proposal target)) \<and>
           rows (matched_of self ext proposal target) ! i < length (rows (labels target))"
    and "\<forall>i \<in> set (rows pos_idx).
           rows (matched_of self ext proposal target) ! i < length (rows (boxes target))"
  shows "\<exists>r. select_training_samples self ext proposal target = Inr r"
  using assms
  unfolding select_training_samples_def sampled_of_def matched_of_def combined_def
  by (auto simp: Let_def ebind_def cat_def index_select_def split: prod.splits)

lemma ref_BoxCoder_rowwise: "encode_rowwise (ref_BoxCoder w)"
  by (simp add: encode_rowwise_def ref_BoxCoder_def ref_encode_def)

lemma ex_train_fields:
  "proposal_matcher (ex_train_heads f) = ref_Matcher (1/2) (1/2)"
  "fg_bg_sampler (ex_train_heads f) = ref_Sampler 4 f"
  "box_coder (ex_train_heads f) = ref_BoxCoder (10, 10, 5, 5)"
  "train_mode (ex_train_heads f)"
  "mask_roi_pool (ex_train_heads f) = None"
  "mask_predictor (ex_train_heads f) = None"
  "box_roi_pool (ex_train_heads f) = ex_box_roi_pool"
  "box_predictor (ex_train_heads f) = ex_box_predictor"
  by (simp_all add: ex_train_heads_def init_def ex_ext_def)

lemma ex_ext_fields:
  "box_iou ex_ext = ref_box_iou"
  "process_box ex_ext = ref_process_box"
  "nms ex_ext = ref_nms"
  "default_device ex_ext = CPU"
  "detection_loss ex_ext = (\<lambda>c b l r. (\<lparr>sdevice = device c, sval = 1\<rparr>, \<lparr>sdevice = device c, sval = 1\<rparr>))"
  "mask_loss ex_ext = (\<lambda>ml p i l g. \<lparr>sdevice = device ml, sval = 1\<rparr>)"
  "softmax ex_ext = ref_softmax"
  "to_dtype ex_ext = float32"
  by (simp_all add: ex_ext_def)

lemma ex_cat: "cat [ex_proposal, boxes ex_target] = Inr (combined ex_proposal ex_target)"
  by (simp add: cat_def combined_def ex_proposal_def ex_target_def)

lemma ex_matcher: "ref_Matcher (1/2) (1/2) (ref_box_iou (boxes ex_target) (combined ex_proposal ex_target)) =
   (\<lparr>device = CPU, row_shape = [], rows = [1, 0, 1]\<rparr>, \<lparr>device = CPU, row_shape = [], rows = [0, 0, 0]\<rparr>)"
  by (simp add: ref_Matcher_def ref_box_iou_def ex_target_def ex_proposal_def combined_def iou_pair_def box_inter_def box_area_def)

lemma ex_sampler: "ref_Sampler 4 (1/2) \<lparr>device = CPU, row_shape = [], rows = [1, 0, 1]\<rparr> =
    (\<lparr>device = CPU, row_shape = [], rows = [0, 2]\<rparr>, \<lparr>device = CPU, row_shape = [], rows = [1]\<rparr>)"
  by (simp add: ref_Sampler_def)

lemma ex_sampler0: "ref_Sampler 4 0 \<lparr>device = CPU, row_shape = [], rows = [1, 0, 1]\<rparr> =
    (\<lparr>device = CPU, row_shape = [], rows = []\<rparr>, \<lparr>device = CPU, row_shape = [], rows = [1]\<rparr>)"
  by (simp add: ref_Sampler_def)

lemma ex_select:
  "select_training_samples (ex_train_heads (1/2)) ex_ext ex_proposal ex_target =
     Inr (\<lparr>device = CPU, row_shape = [4], rows = [(0, 0, 10, 10), (2, 0, 12, 10), (20, 20, 30, 30)]\<rparr>,
          \<lparr>device = CPU, row_shape = [], rows = [0, 0, 0]\<rparr>,
          \<lparr>device = CPU, row_shape = [], rows = [2, 2, 0]\<rparr>,
          \<lparr>device = CPU, row_shape = [4], rows = [(2, 0, 0, 0), (0, 0, 0, 0)]\<rparr>)"
  unfolding select_training_samples_def
  apply (simp add: ex_train_fields ex_ext_fields ex_cat ebind_def ex_matcher ex_sampler Let_def)
  apply (simp add: cat_def index_select_def fill_from_def combined_def ex_proposal_def ex_target_def
       ref_BoxCoder_def ref_encode_def)
  done

lemma ex_select0:
  "select_training_samples (ex_train_heads 0) ex_ext ex_proposal ex_target =
     Inr (\<lparr>device = CPU, row_shape = [4], rows = [(20, 20, 30, 30)]\<rparr>,
          \<lparr>device = CPU, row_shape = [], rows = [0]\<rparr>,
          \<lparr>device = CPU, row_shape = [], rows = [0]\<rparr>,
          \<lparr>device = CPU, row_shape = [4], rows = []\<rparr>)"
  unfolding select_training_samples_def
  apply (simp add: ex_train_fields ex_ext_fields ex_cat ebind_def ex_matcher ex_sampler0 Let_def)
  apply (simp add: cat_def index_select_def fill_from_def combined_def ex_proposal_def ex_target_def
       ref_BoxCoder_def ref_encode_def)
  done

lemma ex_sampled_of: "sampled_of (ex_train_heads (1/2)) ex_ext ex_proposal ex_target =
   (\<lparr>device = CPU, row_shape = [], rows = [0, 2]\<rparr>, \<lparr>device = CPU, row_shape = [], rows = [1]\<rparr>)"
  by (simp add: sampled_of_def ex_train_fields ex_ext_fields ex_matcher ex_sampler)

lemma ex_matched_of: "matched_of (ex_train_heads (1/2)) ex_ext ex_proposal ex_target =
   \<lparr>device = CPU, row_shape = [], rows = [0, 0, 0]\<rparr>"
  by (simp add: matched_of_def ex_train_fields ex_ext_fields ex_matcher)

lemma ex_rows:
  "rows (labels ex_target) = [2]"
  "rows ex_proposal = [(0, 0, 10, 10), (20, 20, 30, 30)]"
  "rows (boxes ex_target) = [(2, 0, 12, 10)]"
  "rows (combined ex_proposal ex_target) = [(0, 0, 10, 10), (20, 20, 30, 30), (2, 0, 12, 10)]"
  by (simp_all add: combined_def ex_proposal_def ex_target_def)

subsection \<open>C1: the index space of the matched-index array\<close>

text \<open>
  C1 as stated: the matched-index array indexes into the post-concatenation proposal
  set, also where it gathers the matched ground-truth box and label. In the example
  run the first sampled proposal has matched index 0. The box the code gathers for it
  (line 50, \<^verbatim>\<open>gt_box[matched_idx[pos_idx]]\<close>) is the ground-truth box
  \<open>(2, 0, 12, 10)\<close>, while position 0 of the post-concatenation proposal set holds the
  proposal \<open>(0, 0, 10, 10)\<close>: read as a position of the combined set, the matched
  index names a different box. The matched ground-truth box sits at position
  \<open>len(proposals) + 0\<close> of the combined set.
\<close>

theorem matched_index_combined_position_counterexample:
  "select_training_samples (ex_train_heads (1/2)) ex_ext ex_proposal ex_target =
     Inr (\<lparr>device = CPU, row_shape = [4], rows = [(0, 0, 10, 10), (2, 0, 12, 10), (20, 20, 30, 30)]\<rparr>,
          \<lparr>device = CPU, row_shape = [], rows = [0, 0, 0]\<rparr>,
          \<lparr>device = CPU, row_shape = [], rows = [2, 2, 0]\<rparr>,
          \<lparr>device = CPU, row_shape = [4], rows = [(2, 0, 0, 0), (0, 0, 0, 0)]\<rparr>) \<and>
   rows (combined ex_proposal ex_target) = [(0, 0, 10, 10), (20, 20, 30, 30), (2, 0, 12, 10)] \<and>
   rows (boxes ex_target) ! ([0, 0, 0] ! 0) = (2, 0, 12, 10) \<and>
   rows (combined ex_proposal ex_target) ! ([0, 0, 0] ! 0) = (0, 0, 10, 10) \<and>
   rows (combined ex_proposal ex_target) ! ([0, 0, 0] ! 0) \<noteq> rows (boxes ex_target) ! ([0, 0, 0] ! 0) \<and>
   rows (combined ex_proposal ex_target) ! (length (rows ex_proposal) + [0, 0, 0] ! 0)
     = rows (boxes ex_target) ! ([0, 0, 0] ! 0)"
  by (simp add: ex_select ex_rows)

text \<open>
  C1 as amended: for every training invocation that returns, the post-concatenation
  set holds the original proposals at positions \<open>[0, len(proposals))\<close> and ground-truth
  box \<open>g\<close> at position \<open>len(proposals) + g\<close>; entry \<open>k\<close> of the returned matched-index
  array is the matcher's entry for the combined position from which sampled proposal
  \<open>k\<close> is taken; and the values of the array are indices into the ground-truth
  sequence: each is below \<open>len(gt_label)\<close>, each of the positive prefix is below
  \<open>len(gt_box)\<close>, the label of a positive is \<open>gt_label\<close> at that index, and the
  regression targets encode \<open>gt_box\<close> at those indices against the positive proposals.
\<close>

theorem matched_index_is_ground_truth_index:
  assumes "select_training_samples self ext proposal target = Inr (sp, mi, lab, rt)"
    and "sampled_of self ext proposal target = (pos_idx, neg_idx)"
  shows "(\<forall>j < length (rows proposal). rows (combined proposal target) ! j = rows proposal ! j) \<and>
         (\<forall>g < length (rows (boxes target)).
            rows (combined proposal target) ! (length (rows proposal) + g) = rows (boxes target) ! g) \<and>
         length (rows sp) = length (rows pos_idx @ rows neg_idx) \<and>
         length (rows mi) = length (rows pos_idx @ rows neg_idx) \<and>
         (\<forall>k < length (rows pos_idx @ rows neg_idx).
            (rows pos_idx @ rows neg_idx) ! k < length (rows (combined proposal target)) \<and>
            (rows pos_idx @ rows neg_idx) ! k < length (rows (matched_of self ext proposal target)) \<and>
            rows sp ! k = rows (combined proposal target) ! ((rows pos_idx @ rows neg_idx) ! k) \<and>
            rows mi ! k = rows (matched_of self ext proposal target) ! ((rows pos_idx @ rows neg_idx) ! k) \<and>
            rows mi ! k < length (rows (labels target))) \<and>
         (\<forall>k < length (rows pos_idx).
            rows mi ! k < length (rows (boxes target)) \<and>
            rows lab ! k = rows (labels target) ! (rows mi ! k)) \<and>
         rt = encode (box_coder self)
                ((boxes target)\<lparr>rows := map (\<lambda>m. rows (boxes target) ! m)
                                             (take (length (rows pos_idx)) (rows mi))\<rparr>)
                (slice_to (length (rows pos_idx)) sp)"
proof -
  from select_training_samples_Inr [OF assms(1)] assms(2) have
    rng: "\<forall>i \<in> set (rows pos_idx @ rows neg_idx).
         i < length (rows (combined proposal target)) \<and>
         i < length (rows (matched_of self ext proposal target)) \<and>
         rows (matched_of self ext proposal target) ! i < length (rows (labels target))"
    and rngb: "\<forall>i \<in> set (rows pos_idx).
         rows (matched_of self ext proposal target) ! i < length (rows (boxes target))"
    and sp: "sp = (combined proposal target)
            \<lparr>rows := map (\<lambda>i. rows (combined proposal target) ! i) (rows pos_idx @ rows neg_idx)\<rparr>"
    and mi: "mi = (matched_of self ext proposal target)
            \<lparr>rows := map (\<lambda>i. rows (matched_of self ext proposal target) ! i) (rows pos_idx @ rows neg_idx)\<rparr>"
    and lab: "lab = (labels target)
            \<lparr>rows := map (\<lambda>i. rows (labels target) ! (rows (matched_of self ext proposal target) ! i)) (rows pos_idx)
                @ replicate (length (rows neg_idx)) 0\<rparr>"
    and rt: "rt = encode (box_coder self)
            ((boxes target)\<lparr>rows := map (\<lambda>i. rows (boxes target) ! (rows (matched_of self ext proposal target) ! i)) (rows pos_idx)\<rparr>)
            ((combined proposal target)\<lparr>rows := map (\<lambda>i. rows (combined proposal target) ! i) (rows pos_idx)\<rparr>)"
    by auto
  have layout: "(\<forall>j < length (rows proposal). rows (combined proposal target) ! j = rows proposal ! j) \<and>
         (\<forall>g < length (rows (boxes target)).
            rows (combined proposal target) ! (length (rows proposal) + g) = rows (boxes target) ! g)"
    by (simp add: combined_def nth_append)
  have lens: "length (rows sp) = length (rows pos_idx @ rows neg_idx) \<and>
         length (rows mi) = length (rows pos_idx @ rows neg_idx)"
    by (simp add: sp mi)
  have al: "\<forall>k < length (rows pos_idx @ rows neg_idx).
            (rows pos_idx @ rows neg_idx) ! k < length (rows (combined proposal target)) \<and>
            (rows pos_idx @ rows neg_idx) ! k < length (rows (matched_of self ext proposal target)) \<and>
            rows sp ! k = rows (combined proposal target) ! ((rows pos_idx @ rows neg_idx) ! k) \<and>
            rows mi ! k = rows (matched_of self ext proposal target) ! ((rows pos_idx @ rows neg_idx) ! k) \<and>
            rows mi ! k < length (rows (labels target))"
  proof (intro allI impI)
    fix k assume k: "k < length (rows pos_idx @ rows neg_idx)"
    then have "(rows pos_idx @ rows neg_idx) ! k \<in> set (rows pos_idx @ rows neg_idx)"
      by (rule nth_mem)
    with rng have "(rows pos_idx @ rows neg_idx) ! k < length (rows (combined proposal target)) \<and>
         (rows pos_idx @ rows neg_idx) ! k < length (rows (matched_of self ext proposal target)) \<and>
         rows (matched_of self ext proposal target) ! ((rows pos_idx @ rows neg_idx) ! k) < length (rows (labels target))"
      by blast
    moreover have "rows sp ! k = rows (combined proposal target) ! ((rows pos_idx @ rows neg_idx) ! k)"
      unfolding sp using k by (simp del: map_append)
    moreover have "rows mi ! k = rows (matched_of self ext proposal target) ! ((rows pos_idx @ rows neg_idx) ! k)"
      unfolding mi using k by (simp del: map_append)
    ultimately show "(rows pos_idx @ rows neg_idx) ! k < length (rows (combined proposal target)) \<and>
            (rows pos_idx @ rows neg_idx) ! k < length (rows (matched_of self ext proposal target)) \<and>
            rows sp ! k = rows (combined proposal target) ! ((rows pos_idx @ rows neg_idx) ! k) \<and>
            rows mi ! k = rows (matched_of self ext proposal target) ! ((rows pos_idx @ rows neg_idx) ! k) \<and>
            rows mi ! k < length (rows (labels target))"
      by simp
  qed
  have pos: "\<forall>k < length (rows pos_idx).
            rows mi ! k < length (rows (boxes target)) \<and>
            rows lab ! k = rows (labels target) ! (rows mi ! k)"
    using rngb by (simp add: mi lab nth_append)
  have enc: "rt = encode (box_coder self)
                ((boxes target)\<lparr>rows := map (\<lambda>m. rows (boxes target) ! m)
                                             (take (length (rows pos_idx)) (rows mi))\<rparr>)
                (slice_to (length (rows pos_idx)) sp)"
    by (simp add: rt mi sp slice_to_def comp_def)
  from layout lens al pos enc show ?thesis by blast
qed

text \<open>The amended C1 on the example run.\<close>

theorem matched_index_is_ground_truth_index_witness:
  "select_training_samples (ex_train_heads (1/2)) ex_ext ex_proposal ex_target =
     Inr (\<lparr>device = CPU, row_shape = [4], rows = [(0, 0, 10, 10), (2, 0, 12, 10), (20, 20, 30, 30)]\<rparr>,
          \<lparr>device = CPU, row_shape = [], rows = [0, 0, 0]\<rparr>,
          \<lparr>device = CPU, row_shape = [], rows = [2, 2, 0]\<rparr>,
          \<lparr>device = CPU, row_shape = [4], rows = [(2, 0, 0, 0), (0, 0, 0, 0)]\<rparr>) \<and>
   sampled_of (ex_train_heads (1/2)) ex_ext ex_proposal ex_target =
     (\<lparr>device = CPU, row_shape = [], rows = [0, 2]\<rparr>, \<lparr>device = CPU, row_shape = [], rows = [1]\<rparr>) \<and>
   rows (combined ex_proposal ex_target) ! (length (rows ex_proposal) + 0) = rows (boxes ex_target) ! 0 \<and>
   [0, 0, 0 :: nat] ! 1 < length (rows (boxes ex_target)) \<and>
   [2, 2, 0 :: int] ! 1 = rows (labels ex_target) ! ([0, 0, 0] ! 1)"
  using matched_index_is_ground_truth_index [OF ex_select ex_sampled_of]
  by (simp add: ex_select ex_sampled_of ex_matched_of ex_rows)

subsection \<open>C2: the counts of the returned sequences\<close>

text \<open>
  C2: for every training invocation that returns (with a box coder that encodes row
  by row), the number of regression targets equals the number of positive samples,
  and the returned labels, sampled proposals and matched indices all have the total
  sampled count as their length.
\<close>

theorem select_training_samples_counts:
  assumes "select_training_samples self ext proposal target = Inr (sp, mi, lab, rt)"
    and "encode_rowwise (box_coder self)"
  shows "length (rows rt) = length (rows (fst (sampled_of self ext proposal target))) \<and>
         length (rows lab) = length (rows (fst (sampled_of self ext proposal target)))
                             + length (rows (snd (sampled_of self ext proposal target))) \<and>
         length (rows sp) = length (rows lab) \<and>
         length (rows mi) = length (rows lab)"
proof -
  from select_training_samples_Inr [OF assms(1)] obtain pos_idx neg_idx where
    s: "sampled_of self ext proposal target = (pos_idx, neg_idx)"
    and sp: "sp = (combined proposal target)
            \<lparr>rows := map (\<lambda>i. rows (combined proposal target) ! i) (rows pos_idx @ rows neg_idx)\<rparr>"
    and mi: "mi = (matched_of self ext proposal target)
            \<lparr>rows := map (\<lambda>i. rows (matched_of self ext proposal target) ! i) (rows pos_idx @ rows neg_idx)\<rparr>"
    and lab: "lab = (labels target)
            \<lparr>rows := map (\<lambda>i. rows (labels target) ! (rows (matched_of self ext proposal target) ! i)) (rows pos_idx)
                @ replicate (length (rows neg_idx)) 0\<rparr>"
    and rt: "rt = encode (box_coder self)
            ((boxes target)\<lparr>rows := map (\<lambda>i. rows (boxes target) ! (rows (matched_of self ext proposal target) ! i)) (rows pos_idx)\<rparr>)
            ((combined proposal target)\<lparr>rows := map (\<lambda>i. rows (combined proposal target) ! i) (rows pos_idx)\<rparr>)"
    by blast
  have "length (rows rt) = length (rows pos_idx)"
    using assms(2) unfolding rt encode_rowwise_def by simp
  then show ?thesis
    by (simp add: s sp mi lab)
qed

text \<open>C2 on the example run: two positives and one negative.\<close>

theorem select_training_samples_counts_witness:
  "select_training_samples (ex_train_heads (1/2)) ex_ext ex_proposal ex_target =
     Inr (\<lparr>device = CPU, row_shape = [4], rows = [(0, 0, 10, 10), (2, 0, 12, 10), (20, 20, 30, 30)]\<rparr>,
          \<lparr>device = CPU, row_shape = [], rows = [0, 0, 0]\<rparr>,
          \<lparr>device = CPU, row_shape = [], rows = [2, 2, 0]\<rparr>,
          \<lparr>device = CPU, row_shape = [4], rows = [(2, 0, 0, 0), (0, 0, 0, 0)]\<rparr>) \<and>
   encode_rowwise (box_coder (ex_train_heads (1/2))) \<and>
   length (rows (fst (sampled_of (ex_train_heads (1/2)) ex_ext ex_proposal ex_target))) = 2 \<and>
   length (rows (snd (sampled_of (ex_train_heads (1/2)) ex_ext ex_proposal ex_target))) = 1"
  using select_training_samples_counts [OF ex_select]
  by (simp add: ex_select ex_train_fields ref_BoxCoder_rowwise)

subsection \<open>C3: positives first, background labels after them\<close>

text \<open>
  C3: for every training invocation that returns, the first \<open>positive_count\<close> sampled
  proposals are the positive samples in the sampler's order, the rest are the negative
  samples, and every label at a position from \<open>positive_count\<close> on is 0, whatever
  ground-truth label the matched index of that proposal points to.
\<close>

theorem positives_form_prefix:
  assumes "select_training_samples self ext proposal target = Inr (sp, mi, lab, rt)"
    and "sampled_of self ext proposal target = (pos_idx, neg_idx)"
  shows "take (length (rows pos_idx)) (rows sp)
           = map (\<lambda>i. rows (combined proposal target) ! i) (rows pos_idx) \<and>
         drop (length (rows pos_idx)) (rows sp)
           = map (\<lambda>i. rows (combined proposal target) ! i) (rows neg_idx) \<and>
         length (rows lab) = length (rows pos_idx) + length (rows neg_idx) \<and>
         (\<forall>k. length (rows pos_idx) \<le> k \<and> k < length (rows lab) \<longrightarrow> rows lab ! k = 0)"
  using select_training_samples_Inr [OF assms(1)] assms(2)
  by (auto simp: nth_append)

text \<open>C3 on the example run: the negative sample is matched to the ground-truth box
  of class 2 and is labelled 0.\<close>

theorem positives_form_prefix_witness:
  "select_training_samples (ex_train_heads (1/2)) ex_ext ex_proposal ex_target =
     Inr (\<lparr>device = CPU, row_shape = [4], rows = [(0, 0, 10, 10), (2, 0, 12, 10), (20, 20, 30, 30)]\<rparr>,
          \<lparr>device = CPU, row_shape = [], rows = [0, 0, 0]\<rparr>,
          \<lparr>device = CPU, row_shape = [], rows = [2, 2, 0]\<rparr>,
          \<lparr>device = CPU, row_shape = [4], rows = [(2, 0, 0, 0), (0, 0, 0, 0)]\<rparr>) \<and>
   sampled_of (ex_train_heads (1/2)) ex_ext ex_proposal ex_target =
     (\<lparr>device = CPU, row_shape = [], rows = [0, 2]\<rparr>, \<lparr>device = CPU, row_shape = [], rows = [1]\<rparr>) \<and>
   rows (labels ex_target) ! (rows (matched_of (ex_train_heads (1/2)) ex_ext ex_proposal ex_target) ! 1) = 2 \<and>
   [2, 2, 0 :: int] ! 2 = 0"
  using positives_form_prefix [OF ex_select ex_sampled_of]
  by (simp add: ex_select ex_sampled_of ex_matched_of ex_rows)

section \<open>Properties of detection\<close>

subsection \<open>The example image, step by step\<close>

lemma upt_numeral: "[i..<numeral n] = [i..<Suc (pred_numeral n)]"
  by (simp add: numeral_eq_Suc)

lemma ex_infer_fields:
  "box_coder (ex_infer_heads st nt) = ref_BoxCoder (10, 10, 5, 5)"
  "\<not> train_mode (ex_infer_heads st nt)"
  "score_thresh (ex_infer_heads st nt) = st"
  "nms_thresh (ex_infer_heads st nt) = nt"
  "num_detections (ex_infer_heads st nt) = 100"
  "min_size (ex_infer_heads st nt) = 1"
  "box_roi_pool (ex_infer_heads st nt) = ex_box_roi_pool"
  "box_predictor (ex_infer_heads st nt) = ex_box_predictor"
  "mask_roi_pool (ex_infer_heads st nt) = None"
  "mask_predictor (ex_infer_heads st nt) = None"
  by (simp_all add: ex_infer_heads_def init_def ex_ext_def)

lemma floor_log2_half:
  assumes "1/2 \<le> x" and "x < 1"
  shows "\<lfloor>log 2 \<bar>x\<bar>\<rfloor> = - 1"
proof -
  from assms have p: "0 < x" by simp
  have "log 2 x < 0" using p assms(2) by simp
  moreover have "- 1 \<le> log 2 x"
  proof -
    have "log 2 (1/2) \<le> log 2 x" using assms(1) p by simp
    moreover have "log 2 (1/2) = - 1" by (simp add: log_divide)
    ultimately show ?thesis by simp
  qed
  ultimately have "\<lfloor>log 2 x\<rfloor> = - 1" by (intro floor_unique) simp_all
  with p show ?thesis by simp
qed

lemma float32_half_to_one:
  assumes "1/2 \<le> x" and "x < 1"
  shows "float32 x = real_of_int (round (x * 16777216)) / 16777216"
proof -
  have nz: "x \<noteq> 0" using assms by simp
  have p1: "2 powr real_of_int (23 - (- 1)) = 16777216"
    by (simp add: powr_numeral)
  have p2: "2 powr real_of_int (- 1 - 23) = 1 / 16777216"
    by (simp add: powr_minus_divide powr_numeral)
  show ?thesis
    unfolding float32_def Let_def floor_log2_half [OF assms] p1 p2 using nz by simp
qed

lemma float32_values:
  "float32 (1/2) = 1/2"
  "float32 (7/10) = 11744051/16777216"
  "float32 (9/10) = 15099494/16777216"
  by (simp_all add: float32_half_to_one round_def)

lemma ex_softmax:
  "ref_softmax [0, ln 3] = [1/4, 3/4]"
  "ref_softmax [0, 0] = [1/2, 1/2]"
  "ref_softmax [0, ln (11744051/5033165)] = [5033165/16777216, 11744051/16777216]"
  by (simp_all add: ref_softmax_def)

lemma ex_reshape:
  "reshape_boxes (Suc (Suc 0)) (snd (ex_infer_feature d)) =
     Inr \<lparr>device = d, row_shape = [2, 4],
          rows = [[(0, 0, 0, 0), (0, 0, 0, 0)], [(0, 0, 0, 0), (0, 0, 0, 0)]]\<rparr>"
  by (simp add: reshape_boxes_def ex_infer_feature_def Let_def upt_numeral)

lemma ex_decode:
  "ref_decode (10, 10, 5, 5) \<lparr>device = d, row_shape = [4], rows = [(0, 0, 0, 0), (0, 0, 0, 0)]\<rparr>
     \<lparr>device = d, row_shape = [4], rows = [(0, 0, 2, 2), (0, 0, 2, 1)]\<rparr>
   = \<lparr>device = d, row_shape = [4], rows = [(0, 0, 2, 2), (0, 0, 2, 1)]\<rparr>"
  by (simp add: ref_decode_def Let_def)

lemma ex_decode_empty:
  "ref_decode (10, 10, 5, 5) \<lparr>device = d, row_shape = [4], rows = []\<rparr>
     \<lparr>device = d, row_shape = [4], rows = []\<rparr>
   = \<lparr>device = d, row_shape = [4], rows = []\<rparr>"
  by (simp add: ref_decode_def Let_def)

lemma ex_process_box:
  "ref_process_box \<lparr>device = d, row_shape = [4], rows = [(0, 0, 2, 2), (0, 0, 2, 1)]\<rparr>
      \<lparr>device = d, row_shape = [], rows = [3/4, 1/2]\<rparr> (100, 100) 1
   = (\<lparr>device = d, row_shape = [4], rows = [(0, 0, 2, 2), (0, 0, 2, 1)]\<rparr>,
      \<lparr>device = d, row_shape = [], rows = [3/4, 1/2]\<rparr>)"
  by (simp add: ref_process_box_def Let_def)

lemma ex_process_box_empty:
  "ref_process_box \<lparr>device = d, row_shape = [4], rows = []\<rparr>
      \<lparr>device = d, row_shape = [], rows = []\<rparr> (100, 100) 1
   = (\<lparr>device = d, row_shape = [4], rows = []\<rparr>, \<lparr>device = d, row_shape = [], rows = []\<rparr>)"
  by (simp add: ref_process_box_def Let_def)

lemma ex_decode_single:
  "ref_decode (10, 10, 5, 5) \<lparr>device = d, row_shape = [4], rows = [(0, 0, 0, 0)]\<rparr>
     \<lparr>device = d, row_shape = [4], rows = [(0, 0, 2, 2)]\<rparr>
   = \<lparr>device = d, row_shape = [4], rows = [(0, 0, 2, 2)]\<rparr>"
  by (simp add: ref_decode_def Let_def)

lemma ex_process_box_single:
  "ref_process_box \<lparr>device = d, row_shape = [4], rows = [(0, 0, 2, 2)]\<rparr>
      \<lparr>device = d, row_shape = [], rows = [11744051/16777216]\<rparr> (100, 100) 1
   = (\<lparr>device = d, row_shape = [4], rows = [(0, 0, 2, 2)]\<rparr>,
      \<lparr>device = d, row_shape = [], rows = [11744051/16777216]\<rparr>)"
  by (simp add: ref_process_box_def Let_def)

lemma ex_nms_single:
  "ref_nms \<lparr>device = d, row_shape = [4], rows = [(0, 0, 2, 2)]\<rparr>
      \<lparr>device = d, row_shape = [], rows = [11744051/16777216]\<rparr> t
   = \<lparr>device = d, row_shape = [], rows = [0]\<rparr>"
  by (simp add: ref_nms_def)

lemma ex_iou: "iou_pair (0, 0, 2, 2) (0, 0, 2, 1) = 1/2"
  by (simp add: iou_pair_def box_inter_def box_area_def)

lemma ex_nms:
  "ref_nms \<lparr>device = d, row_shape = [4], rows = [(0, 0, 2, 2), (0, 0, 2, 1)]\<rparr>
      \<lparr>device = d, row_shape = [], rows = [3/4, 1/2]\<rparr> (1/2)
   = \<lparr>device = d, row_shape = [], rows = [0, 1]\<rparr>"
  by (simp add: ref_nms_def ex_iou)

lemma ex_nms_tight:
  "ref_nms \<lparr>device = d, row_shape = [4], rows = [(0, 0, 2, 2), (0, 0, 2, 1)]\<rparr>
      \<lparr>device = d, row_shape = [], rows = [3/4, 1/2]\<rparr> (2/5)
   = \<lparr>device = d, row_shape = [], rows = [0]\<rparr>"
  by (simp add: ref_nms_def ex_iou)

lemma ex_nms_empty:
  "ref_nms \<lparr>device = d, row_shape = [4], rows = []\<rparr> \<lparr>device = d, row_shape = [], rows = []\<rparr> t
   = \<lparr>device = d, row_shape = [], rows = []\<rparr>"
  by (simp add: ref_nms_def)

lemma ex_detect_class_two:
  "detect_class (ex_infer_heads (1/2) (1/2)) ex_ext d
     \<lparr>device = d, row_shape = [2], rows = [[1/4, 3/4], [1/2, 1/2]]\<rparr>
     \<lparr>device = d, row_shape = [2, 4],
      rows = [[(0, 0, 0, 0), (0, 0, 0, 0)], [(0, 0, 0, 0), (0, 0, 0, 0)]]\<rparr>
     (ex_infer_proposal d) (100, 100) (Suc 0)
   = Inr (\<lparr>device = d, row_shape = [4], rows = [(0, 0, 2, 2), (0, 0, 2, 1)]\<rparr>,
          \<lparr>device = d, row_shape = [], rows = [1, 1]\<rparr>,
          \<lparr>device = d, row_shape = [], rows = [3/4, 1/2]\<rparr>)"
  unfolding detect_class_def
  apply (simp add: column_def ebind_def mask_select_def ex_infer_proposal_def ex_infer_fields
      ex_ext_fields float32_values ref_BoxCoder_def Let_def)
  apply (simp add: ex_decode ex_process_box ex_nms slice_to_def index_select_def full_def)
  done

lemma ex_detect_class_one:
  "detect_class (ex_infer_heads (1/2) (2/5)) ex_ext d
     \<lparr>device = d, row_shape = [2], rows = [[1/4, 3/4], [1/2, 1/2]]\<rparr>
     \<lparr>device = d, row_shape = [2, 4],
      rows = [[(0, 0, 0, 0), (0, 0, 0, 0)], [(0, 0, 0, 0), (0, 0, 0, 0)]]\<rparr>
     (ex_infer_proposal d) (100, 100) (Suc 0)
   = Inr (\<lparr>device = d, row_shape = [4], rows = [(0, 0, 2, 2)]\<rparr>,
          \<lparr>device = d, row_shape = [], rows = [1]\<rparr>,
          \<lparr>device = d, row_shape = [], rows = [3/4]\<rparr>)"
  unfolding detect_class_def
  apply (simp add: column_def ebind_def mask_select_def ex_infer_proposal_def ex_infer_fields
      ex_ext_fields float32_values ref_BoxCoder_def Let_def)
  apply (simp add: ex_decode ex_process_box ex_nms_tight slice_to_def index_select_def full_def)
  done

lemma ex_detect_class_none:
  "detect_class (ex_infer_heads (9/10) (1/2)) ex_ext d
     \<lparr>device = d, row_shape = [2], rows = [[1/4, 3/4], [1/2, 1/2]]\<rparr>
     \<lparr>device = d, row_shape = [2, 4],
      rows = [[(0, 0, 0, 0), (0, 0, 0, 0)], [(0, 0, 0, 0), (0, 0, 0, 0)]]\<rparr>
     (ex_infer_proposal d) (100, 100) (Suc 0)
   = Inr (\<lparr>device = d, row_shape = [4], rows = []\<rparr>,
          \<lparr>device = d, row_shape = [], rows = []\<rparr>,
          \<lparr>device = d, row_shape = [], rows = []\<rparr>)"
  unfolding detect_class_def
  apply (simp add: column_def ebind_def mask_select_def ex_infer_proposal_def ex_infer_fields
      ex_ext_fields float32_values ref_BoxCoder_def Let_def)
  apply (simp add: ex_decode_empty ex_process_box_empty ex_nms_empty slice_to_def index_select_def full_def)
  done

lemma ex_detect_class_tight:
  "detect_class (ex_infer_heads (7/10) (1/2)) ex_ext d
     \<lparr>device = d, row_shape = [2], rows = [[5033165/16777216, 11744051/16777216], [1/2, 1/2]]\<rparr>
     \<lparr>device = d, row_shape = [2, 4],
      rows = [[(0, 0, 0, 0), (0, 0, 0, 0)], [(0, 0, 0, 0), (0, 0, 0, 0)]]\<rparr>
     (ex_infer_proposal d) (100, 100) (Suc 0)
   = Inr (\<lparr>device = d, row_shape = [4], rows = [(0, 0, 2, 2)]\<rparr>,
          \<lparr>device = d, row_shape = [], rows = [1]\<rparr>,
          \<lparr>device = d, row_shape = [], rows = [11744051/16777216]\<rparr>)"
  unfolding detect_class_def
  apply (simp add: column_def ebind_def mask_select_def ex_infer_proposal_def ex_infer_fields
      ex_ext_fields float32_values ref_BoxCoder_def Let_def)
  apply (simp add: ex_decode_single ex_process_box_single ex_nms_single slice_to_def
      index_select_def full_def)
  done

lemma ex_detect_tight_prefix:
  "detect self ex_ext (fst (ex_tight_feature d)) (snd (ex_tight_feature d)) proposal image_shape =
     ebind (detect_loop self ex_ext d
              \<lparr>device = d, row_shape = [2],
               rows = [[5033165/16777216, 11744051/16777216], [1/2, 1/2]]\<rparr>
              \<lparr>device = d, row_shape = [2, 4],
               rows = [[(0, 0, 0, 0), (0, 0, 0, 0)], [(0, 0, 0, 0), (0, 0, 0, 0)]]\<rparr>
              proposal image_shape [Suc 0] [] [] [])
       (\<lambda>(bs, ls, ss).
          ebind (cat bs) (\<lambda>b. ebind (cat ls) (\<lambda>l. ebind (cat ss) (\<lambda>s.
            Inr [''boxes'' \<mapsto> BoxesV b, ''labels'' \<mapsto> IntsV l, ''scores'' \<mapsto> RealsV s]))))"
proof -
  have f: "fst (ex_tight_feature d)
           = \<lparr>device = d, row_shape = [2], rows = [[0, ln (11744051/5033165)], [0, 0]]\<rparr>"
    and g: "snd (ex_tight_feature d) = snd (ex_infer_feature d)"
    by (simp_all add: ex_tight_feature_def)
  show ?thesis
    unfolding detect_def g
    apply (subst f)+
    apply (simp add: ex_reshape ex_softmax ex_ext_fields Let_def upt_numeral)
    apply (simp add: ebind_def)
    done
qed

lemma ex_detect_tight:
  "detect (ex_infer_heads (7/10) (1/2)) ex_ext (fst (ex_tight_feature d)) (snd (ex_tight_feature d))
     (ex_infer_proposal d) (100, 100) =
   Inr [''boxes'' \<mapsto> BoxesV \<lparr>device = d, row_shape = [4], rows = [(0, 0, 2, 2)]\<rparr>,
        ''labels'' \<mapsto> IntsV \<lparr>device = d, row_shape = [], rows = [1]\<rparr>,
        ''scores'' \<mapsto> RealsV \<lparr>device = d, row_shape = [], rows = [11744051/16777216]\<rparr>]"
  by (simp add: ex_detect_tight_prefix ex_detect_class_tight ebind_def cat_def)

lemma ex_detect_prefix:
  "detect self ex_ext (fst (ex_infer_feature d)) (snd (ex_infer_feature d)) proposal image_shape =
     ebind (detect_loop self ex_ext d
              \<lparr>device = d, row_shape = [2], rows = [[1/4, 3/4], [1/2, 1/2]]\<rparr>
              \<lparr>device = d, row_shape = [2, 4],
               rows = [[(0, 0, 0, 0), (0, 0, 0, 0)], [(0, 0, 0, 0), (0, 0, 0, 0)]]\<rparr>
              proposal image_shape [Suc 0] [] [] [])
       (\<lambda>(bs, ls, ss).
          ebind (cat bs) (\<lambda>b. ebind (cat ls) (\<lambda>l. ebind (cat ss) (\<lambda>s.
            Inr [''boxes'' \<mapsto> BoxesV b, ''labels'' \<mapsto> IntsV l, ''scores'' \<mapsto> RealsV s]))))"
proof -
  have f: "fst (ex_infer_feature d) = \<lparr>device = d, row_shape = [2], rows = [[0, ln 3], [0, 0]]\<rparr>"
    by (simp add: ex_infer_feature_def)
  show ?thesis
    unfolding detect_def
    apply (subst f)+
    apply (simp add: ex_reshape ex_softmax ex_ext_fields Let_def upt_numeral)
    apply (simp add: ebind_def)
    done
qed

lemma ex_detect_two:
  "detect (ex_infer_heads (1/2) (1/2)) ex_ext (fst (ex_infer_feature d)) (snd (ex_infer_feature d))
     (ex_infer_proposal d) (100, 100) =
   Inr [''boxes'' \<mapsto> BoxesV \<lparr>device = d, row_shape = [4], rows = [(0, 0, 2, 2), (0, 0, 2, 1)]\<rparr>,
        ''labels'' \<mapsto> IntsV \<lparr>device = d, row_shape = [], rows = [1, 1]\<rparr>,
        ''scores'' \<mapsto> RealsV \<lparr>device = d, row_shape = [], rows = [3/4, 1/2]\<rparr>]"
  by (simp add: ex_detect_prefix ex_detect_class_two ebind_def cat_def)

lemma ex_detect_one:
  "detect (ex_infer_heads (1/2) (2/5)) ex_ext (fst (ex_infer_feature d)) (snd (ex_infer_feature d))
     (ex_infer_proposal d) (100, 100) =
   Inr [''boxes'' \<mapsto> BoxesV \<lparr>device = d, row_shape = [4], rows = [(0, 0, 2, 2)]\<rparr>,
        ''labels'' \<mapsto> IntsV \<lparr>device = d, row_shape = [], rows = [1]\<rparr>,
        ''scores'' \<mapsto> RealsV \<lparr>device = d, row_shape = [], rows = [3/4]\<rparr>]"
  by (simp add: ex_detect_prefix ex_detect_class_one ebind_def cat_def)

lemma ex_detect_none:
  "detect (ex_infer_heads (9/10) (1/2)) ex_ext (fst (ex_infer_feature d)) (snd (ex_infer_feature d))
     (ex_infer_proposal d) (100, 100) =
   Inr [''boxes'' \<mapsto> BoxesV \<lparr>device = d, row_shape = [4], rows = []\<rparr>,
        ''labels'' \<mapsto> IntsV \<lparr>device = d, row_shape = [], rows = []\<rparr>,
        ''scores'' \<mapsto> RealsV \<lparr>device = d, row_shape = [], rows = []\<rparr>]"
  by (simp add: ex_detect_prefix ex_detect_class_none ebind_def cat_def)

subsection \<open>What a successful call returns\<close>

lemma cat_Inr: "cat ts = Inr t \<Longrightarrow> rows t = concat (map rows ts)"
  by (auto simp: cat_def split: list.splits if_splits)

lemma mask_select_Inr:
  "mask_select t keep = Inr r \<longleftrightarrow>
     length (rows keep) = length (rows t) \<and>
     r = t\<lparr>rows := map fst (filter snd (zip (rows t) (rows keep)))\<rparr>"
  by (auto simp: mask_select_def)

lemma column_Inr:
  "column c t = Inr r \<longleftrightarrow>
     (\<forall>x \<in> set (rows t). c < length x) \<and>
     r = \<lparr>device = device t, row_shape = drop 1 (row_shape t), rows = map (\<lambda>x. x ! c) (rows t)\<rparr>"
  by (auto simp: column_def)

lemma kept_scores_meet_threshold:
  "set (map fst (filter snd (zip xs (map (\<lambda>s. th \<le> s) xs)))) \<subseteq> {s. th \<le> (s::real)}"
  by (induction xs) auto

lemma detect_class_Inr:
  assumes "detect_class self ext dev pred_score box_regression proposal image_shape c
           = Inr (box, label, score)"
  shows "\<exists>box0 kept pb.
           set (rows kept) \<subseteq> {s. to_dtype ext (score_thresh self) \<le> s} \<and>
           pb = process_box ext box0 kept image_shape (min_size self) \<and>
           (\<forall>i \<in> set (take (num_detections self) (rows (nms ext (fst pb) (snd pb) (nms_thresh self)))).
              i < length (rows (fst pb)) \<and> i < length (rows (snd pb))) \<and>
           rows box = map (\<lambda>i. rows (fst pb) ! i)
                        (take (num_detections self) (rows (nms ext (fst pb) (snd pb) (nms_thresh self)))) \<and>
           rows score = map (\<lambda>i. rows (snd pb) ! i)
                        (take (num_detections self) (rows (nms ext (fst pb) (snd pb) (nms_thresh self)))) \<and>
           rows label = replicate (length (rows box)) (int c)"
proof -
  from assms obtain sc bd b1 s1 d1 where
    sc: "column c pred_score = Inr sc"
    and b1: "mask_select proposal
               \<lparr>device = device sc, row_shape = row_shape sc,
                rows = map (\<lambda>s. to_dtype ext (score_thresh self) \<le> s) (rows sc)\<rparr> = Inr b1"
    and s1: "mask_select sc
               \<lparr>device = device sc, row_shape = row_shape sc,
                rows = map (\<lambda>s. to_dtype ext (score_thresh self) \<le> s) (rows sc)\<rparr> = Inr s1"
    and rest: "(let box = decode (box_coder self) d1 b1;
            (box, score) = process_box ext box s1 image_shape (min_size self);
            keep = slice_to (num_detections self) (nms ext box score (nms_thresh self))
        in ebind (index_select box keep) (\<lambda>box.
           ebind (index_select score keep) (\<lambda>score.
           let label = full (length (rows keep)) (int c) dev
           in Inr (box, label, score)))) = Inr (box, label, score)"
    unfolding detect_class_def by (auto simp: ebind_Inr Let_def)
  have k: "set (rows s1) \<subseteq> {s. to_dtype ext (score_thresh self) \<le> s}"
    using s1 kept_scores_meet_threshold [of "rows sc" "to_dtype ext (score_thresh self)"]
    by (auto simp: mask_select_Inr)
  define pb where "pb = process_box ext (decode (box_coder self) d1 b1) s1 image_shape (min_size self)"
  from rest have
    "(\<forall>i \<in> set (take (num_detections self) (rows (nms ext (fst pb) (snd pb) (nms_thresh self)))).
              i < length (rows (fst pb)) \<and> i < length (rows (snd pb))) \<and>
     rows box = map (\<lambda>i. rows (fst pb) ! i)
                  (take (num_detections self) (rows (nms ext (fst pb) (snd pb) (nms_thresh self)))) \<and>
     rows score = map (\<lambda>i. rows (snd pb) ! i)
                  (take (num_detections self) (rows (nms ext (fst pb) (snd pb) (nms_thresh self)))) \<and>
     rows label = replicate (length (rows box)) (int c)"
    unfolding pb_def
    by (auto simp: Let_def ebind_Inr index_select_Inr slice_to_def full_def split: prod.splits)
  with k pb_def show ?thesis by blast
qed

lemma detect_class_scores:
  assumes "detect_class self ext dev pred_score box_regression proposal image_shape c
           = Inr (box, label, score)"
    and "process_box_selects (process_box ext)"
  shows "length (rows box) = length (rows score) \<and> length (rows label) = length (rows score) \<and>
         (\<forall>x \<in> set (rows score). to_dtype ext (score_thresh self) \<le> x)"
  using detect_class_Inr [OF assms(1)]
proof (elim exE conjE)
  fix box0 kept pb
  define keep where
    "keep = take (num_detections self) (rows (nms ext (fst pb) (snd pb) (nms_thresh self)))"
  assume k: "set (rows kept) \<subseteq> {s. to_dtype ext (score_thresh self) \<le> s}"
    and pb: "pb = process_box ext box0 kept image_shape (min_size self)"
    and rng: "\<forall>i \<in> set (take (num_detections self) (rows (nms ext (fst pb) (snd pb) (nms_thresh self)))).
              i < length (rows (fst pb)) \<and> i < length (rows (snd pb))"
    and b: "rows box = map (\<lambda>i. rows (fst pb) ! i)
              (take (num_detections self) (rows (nms ext (fst pb) (snd pb) (nms_thresh self))))"
    and s: "rows score = map (\<lambda>i. rows (snd pb) ! i)
              (take (num_detections self) (rows (nms ext (fst pb) (snd pb) (nms_thresh self))))"
    and l: "rows label = replicate (length (rows box)) (int c)"
  have rng': "\<forall>i \<in> set keep. i < length (rows (snd pb))"
    using rng unfolding keep_def by simp
  have b': "rows box = map (\<lambda>i. rows (fst pb) ! i) keep"
    using b unfolding keep_def .
  have s': "rows score = map (\<lambda>i. rows (snd pb) ! i) keep"
    using s unfolding keep_def .
  have "set (rows (snd (process_box ext box0 kept image_shape (min_size self)))) \<subseteq> set (rows kept)"
    using assms(2) unfolding process_box_selects_def by (elim allE)
  then have sub: "set (rows (snd pb)) \<subseteq> set (rows kept)"
    unfolding pb .
  have th: "\<forall>x \<in> set (rows score). to_dtype ext (score_thresh self) \<le> x"
  proof
    fix x assume "x \<in> set (rows score)"
    then have "x \<in> (\<lambda>i. rows (snd pb) ! i) ` set keep"
      by (simp only: s' set_map)
    then obtain i where i: "i \<in> set keep" and x: "x = rows (snd pb) ! i"
      by (rule imageE)
    from rng' i have "i < length (rows (snd pb))" by (rule bspec)
    then have "x \<in> set (rows (snd pb))" unfolding x by (rule nth_mem)
    with sub have "x \<in> set (rows kept)" by (rule subsetD)
    with k have "x \<in> {s. to_dtype ext (score_thresh self) \<le> s}" by (rule subsetD)
    then show "to_dtype ext (score_thresh self) \<le> x" by simp
  qed
  have l1: "length (rows box) = length (rows score)"
    by (simp only: b' s' length_map)
  have l2: "length (rows label) = length (rows box)"
    by (simp only: l length_replicate)
  from th l1 l2 show ?thesis by simp
qed

lemma detect_loop_Inr:
  assumes "detect_loop self ext dev pred_score box_regression proposal image_shape cs bs ls ss
           = Inr (bs', ls', ss')"
  shows "\<exists>segs. map (detect_class self ext dev pred_score box_regression proposal image_shape) cs
                 = map Inr segs \<and>
               bs' = bs @ map fst segs \<and>
               ls' = ls @ map (\<lambda>seg. fst (snd seg)) segs \<and>
               ss' = ss @ map (\<lambda>seg. snd (snd seg)) segs"
  using assms
proof (induction cs arbitrary: bs ls ss)
  case Nil
  then show ?case by simp
next
  case (Cons c cs)
  from Cons.prems obtain box label score where
    c: "detect_class self ext dev pred_score box_regression proposal image_shape c
          = Inr (box, label, score)"
    and r: "detect_loop self ext dev pred_score box_regression proposal image_shape cs
              (bs @ [box]) (ls @ [label]) (ss @ [score]) = Inr (bs', ls', ss')"
    by (auto simp: ebind_Inr)
  from Cons.IH [OF r] obtain segs where
    "map (detect_class self ext dev pred_score box_regression proposal image_shape) cs = map Inr segs"
    "bs' = (bs @ [box]) @ map fst segs"
    "ls' = (ls @ [label]) @ map (\<lambda>seg. fst (snd seg)) segs"
    "ss' = (ss @ [score]) @ map (\<lambda>seg. snd (snd seg)) segs"
    by blast
  then show ?case
    using c by (intro exI [of _ "(box, label, score) # segs"]) simp
qed

lemma detect_Inr:
  assumes "detect self ext class_logit box_regression proposal image_shape = Inr result"
  shows "\<exists>num_classes pred_score br segs b l s.
           row_shape class_logit = [num_classes] \<and>
           map (detect_class self ext (device class_logit) pred_score br proposal image_shape)
               [1..<num_classes] = map Inr segs \<and>
           result = [''boxes'' \<mapsto> BoxesV b, ''labels'' \<mapsto> IntsV l, ''scores'' \<mapsto> RealsV s] \<and>
           rows b = concat (map (\<lambda>seg. rows (fst seg)) segs) \<and>
           rows l = concat (map (\<lambda>seg. rows (fst (snd seg))) segs) \<and>
           rows s = concat (map (\<lambda>seg. rows (snd (snd seg))) segs)"
proof -
  from assms obtain num_classes where n: "row_shape class_logit = [num_classes]"
    unfolding detect_def by (auto split: list.splits)
  from assms n obtain pred_score br bs ls ss b l s where
    loop: "detect_loop self ext (device class_logit) pred_score br proposal image_shape
             [1..<num_classes] [] [] [] = Inr (bs, ls, ss)"
    and cb: "cat bs = Inr b" and cl: "cat ls = Inr l" and cs: "cat ss = Inr s"
    and r: "result = [''boxes'' \<mapsto> BoxesV b, ''labels'' \<mapsto> IntsV l, ''scores'' \<mapsto> RealsV s]"
    unfolding detect_def by (auto simp: Let_def ebind_Inr)
  from detect_loop_Inr [OF loop] obtain segs where
    m: "map (detect_class self ext (device class_logit) pred_score br proposal image_shape)
          [1..<num_classes] = map Inr segs"
    and "bs = map fst segs" "ls = map (\<lambda>seg. fst (snd seg)) segs" "ss = map (\<lambda>seg. snd (snd seg)) segs"
    by auto
  with cat_Inr [OF cb] cat_Inr [OF cl] cat_Inr [OF cs]
  have "rows b = concat (map (\<lambda>seg. rows (fst seg)) segs) \<and>
        rows l = concat (map (\<lambda>seg. rows (fst (snd seg))) segs) \<and>
        rows s = concat (map (\<lambda>seg. rows (snd (snd seg))) segs)"
    by (simp add: comp_def)
  with n m r show ?thesis by blast
qed

lemma map_eq_Inr_nth:
  assumes "map f cs = map Inr segs" and "seg \<in> set segs"
  shows "\<exists>c \<in> set cs. f c = Inr seg"
proof -
  from assms(2) obtain k where k: "k < length segs" "segs ! k = seg"
    by (auto simp: in_set_conv_nth)
  from assms(1) have len: "length cs = length segs"
    by (metis length_map)
  from assms(1) have "map f cs ! k = map Inr segs ! k" by simp
  with k len have "f (cs ! k) = Inr seg" by simp
  moreover have "cs ! k \<in> set cs" using k len by simp
  ultimately show ?thesis by blast
qed

lemma length_concat_eq:
  assumes "\<forall>seg \<in> set segs. length (f seg) = length (g seg)"
  shows "length (concat (map f segs)) = length (concat (map g segs))"
  using assms by (induction segs) simp_all

lemma ref_process_box_selects: "process_box_selects ref_process_box"
  unfolding process_box_selects_def ref_process_box_def
  by (auto simp: Let_def dest: set_zip_rightD)

subsection \<open>C5: the returned scores and the threshold\<close>

text \<open>
  C5 as stated: every returned detection has a score greater than or equal to the
  configured score threshold. Line 72 compares in the dtype of the scores, so a score
  passes when it reaches the threshold as rounded to that dtype. With single precision
  scores and the configured threshold 7/10, the rounded threshold is
  \<open>11744051/16777216\<close>, which is below 7/10; the first proposal of the example has
  exactly this class-1 score, passes the comparison and is returned.
\<close>

theorem score_below_configured_threshold_counterexample:
  "detect (ex_infer_heads (7/10) (1/2)) ex_ext (fst (ex_tight_feature CPU)) (snd (ex_tight_feature CPU))
     (ex_infer_proposal CPU) (100, 100) =
   Inr [''boxes'' \<mapsto> BoxesV \<lparr>device = CPU, row_shape = [4], rows = [(0, 0, 2, 2)]\<rparr>,
        ''labels'' \<mapsto> IntsV \<lparr>device = CPU, row_shape = [], rows = [1]\<rparr>,
        ''scores'' \<mapsto> RealsV \<lparr>device = CPU, row_shape = [], rows = [11744051/16777216]\<rparr>] \<and>
   score_thresh (ex_infer_heads (7/10) (1/2)) = 7/10 \<and>
   to_dtype ex_ext (score_thresh (ex_infer_heads (7/10) (1/2))) = 11744051/16777216 \<and>
   (11744051/16777216 :: real) < score_thresh (ex_infer_heads (7/10) (1/2)) \<and>
   process_box_selects (process_box ex_ext)"
  by (simp add: ex_detect_tight ex_infer_fields(3) ex_ext_fields float32_values
        ref_process_box_selects)

text \<open>
  C5 as amended: for every inference invocation of \<^verbatim>\<open>detect\<close> that returns (with a
  \<^verbatim>\<open>process_box\<close> that returns scores it was given), the result holds the
  parallel sequences boxes, labels and scores of one length, and every returned score
  is greater than or equal to the configured score threshold as converted to the dtype
  of the scores (for single precision scores, the threshold rounded to single
  precision).
\<close>

theorem detect_scores_meet_rounded_threshold:
  assumes "detect self ext class_logit box_regression proposal image_shape = Inr result"
    and "process_box_selects (process_box ext)"
  shows "\<exists>b l s. result = [''boxes'' \<mapsto> BoxesV b, ''labels'' \<mapsto> IntsV l, ''scores'' \<mapsto> RealsV s] \<and>
           length (rows b) = length (rows s) \<and> length (rows l) = length (rows s) \<and>
           (\<forall>k < length (rows s). to_dtype ext (score_thresh self) \<le> rows s ! k)"
proof -
  from detect_Inr [OF assms(1)] obtain num_classes pred_score br segs b l s where
    m: "map (detect_class self ext (device class_logit) pred_score br proposal image_shape)
          [1..<num_classes] = map Inr segs"
    and r: "result = [''boxes'' \<mapsto> BoxesV b, ''labels'' \<mapsto> IntsV l, ''scores'' \<mapsto> RealsV s]"
    and b: "rows b = concat (map (\<lambda>seg. rows (fst seg)) segs)"
    and l: "rows l = concat (map (\<lambda>seg. rows (fst (snd seg))) segs)"
    and s: "rows s = concat (map (\<lambda>seg. rows (snd (snd seg))) segs)"
    by blast
  have seg: "length (rows (fst seg)) = length (rows (snd (snd seg))) \<and>
             length (rows (fst (snd seg))) = length (rows (snd (snd seg))) \<and>
             (\<forall>x \<in> set (rows (snd (snd seg))). to_dtype ext (score_thresh self) \<le> x)"
    if "seg \<in> set segs" for seg
  proof -
    from map_eq_Inr_nth [OF m that] obtain c where
      "detect_class self ext (device class_logit) pred_score br proposal image_shape c
         = Inr (fst seg, fst (snd seg), snd (snd seg))"
      by auto
    from detect_class_scores [OF this assms(2)] show ?thesis .
  qed
  have lb: "length (rows b) = length (rows s)"
    unfolding b s by (rule length_concat_eq) (simp add: seg)
  have ll: "length (rows l) = length (rows s)"
    unfolding l s by (rule length_concat_eq) (simp add: seg)
  have "\<forall>x \<in> set (rows s). to_dtype ext (score_thresh self) \<le> x"
    unfolding s using seg by auto
  then have "\<forall>k < length (rows s). to_dtype ext (score_thresh self) \<le> rows s ! k"
    by simp
  with r lb ll show ?thesis by blast
qed

text \<open>The amended C5 on the example image with threshold 1/2, which single
  precision represents exactly: the scores 3/4 and 1/2 are both returned.\<close>

theorem detect_scores_meet_rounded_threshold_witness:
  "detect (ex_infer_heads (1/2) (1/2)) ex_ext (fst (ex_infer_feature CPU)) (snd (ex_infer_feature CPU))
     (ex_infer_proposal CPU) (100, 100) =
   Inr [''boxes'' \<mapsto> BoxesV \<lparr>device = CPU, row_shape = [4], rows = [(0, 0, 2, 2), (0, 0, 2, 1)]\<rparr>,
        ''labels'' \<mapsto> IntsV \<lparr>device = CPU, row_shape = [], rows = [1, 1]\<rparr>,
        ''scores'' \<mapsto> RealsV \<lparr>device = CPU, row_shape = [], rows = [3/4, 1/2]\<rparr>] \<and>
   process_box_selects (process_box ex_ext) \<and>
   to_dtype ex_ext (score_thresh (ex_infer_heads (1/2) (1/2))) = 1/2 \<and>
   (\<exists>b l s. [''boxes'' \<mapsto> BoxesV \<lparr>device = CPU, row_shape = [4], rows = [(0, 0, 2, 2), (0, 0, 2, 1)]\<rparr>,
              ''labels'' \<mapsto> IntsV \<lparr>device = CPU, row_shape = [], rows = [1, 1]\<rparr>,
              ''scores'' \<mapsto> RealsV \<lparr>device = CPU, row_shape = [], rows = [3/4, 1/2]\<rparr>]
             = [''boxes'' \<mapsto> BoxesV b, ''labels'' \<mapsto> IntsV l, ''scores'' \<mapsto> RealsV s] \<and>
            length (rows b) = length (rows s) \<and> length (rows l) = length (rows s) \<and>
            (\<forall>k < length (rows s).
               to_dtype ex_ext (score_thresh (ex_infer_heads (1/2) (1/2))) \<le> rows s ! k))"
proof -
  have p: "process_box_selects (process_box ex_ext)"
    by (simp add: ex_ext_fields ref_process_box_selects)
  have t: "to_dtype ex_ext (score_thresh (ex_infer_heads (1/2) (1/2))) = 1/2"
    by (simp add: ex_infer_fields(3) ex_ext_fields float32_values)
  from detect_scores_meet_rounded_threshold [OF ex_detect_two [of CPU] p] ex_detect_two [of CPU] p t
  show ?thesis by blast
qed

subsection \<open>C6: the boxes kept within a class\<close>

text \<open>The reference \<^verbatim>\<open>nms\<close> keeps distinct positions, and no two boxes it keeps
  have an IoU greater than the threshold.\<close>

lemma box_inter_sym: "box_inter a b = box_inter b a"
  by (cases a, cases b) (simp add: box_inter_def min.commute max.commute)

lemma iou_pair_sym: "iou_pair a b = iou_pair b a"
  by (simp add: iou_pair_def box_inter_sym [of a b] add.commute)

lemma nms_scan_keep:
  "\<forall>k \<in> set kept. iou_pair (bs ! k) (bs ! c) \<le> t \<Longrightarrow>
   nms_scan bs t kept (c # cand) = nms_scan bs t (kept @ [c]) cand"
  by simp

lemma nms_scan_drop:
  "\<not> (\<forall>k \<in> set kept. iou_pair (bs ! k) (bs ! c) \<le> t) \<Longrightarrow>
   nms_scan bs t kept (c # cand) = nms_scan bs t kept cand"
  by (subst nms_scan.simps) (simp only: if_False)

lemma nms_scan_invariant:
  assumes "distinct kept" and "distinct cand" and "set kept \<inter> set cand = {}"
    and "\<forall>i \<in> set kept. \<forall>j \<in> set kept. i \<noteq> j \<longrightarrow> iou_pair (bs ! i) (bs ! j) \<le> t"
  shows "distinct (nms_scan bs t kept cand) \<and>
         (\<forall>i \<in> set (nms_scan bs t kept cand). \<forall>j \<in> set (nms_scan bs t kept cand).
            i \<noteq> j \<longrightarrow> iou_pair (bs ! i) (bs ! j) \<le> t)"
  using assms
proof (induction cand arbitrary: kept)
  case Nil
  then show ?case by simp
next
  case (Cons c cand)
  show ?case
  proof (cases "\<forall>k \<in> set kept. iou_pair (bs ! k) (bs ! c) \<le> t")
    case True
    have d: "distinct (kept @ [c])"
      using Cons.prems(1,3) by auto
    have e: "set (kept @ [c]) \<inter> set cand = {}"
      using Cons.prems(2,3) by auto
    have p: "\<forall>i \<in> set (kept @ [c]). \<forall>j \<in> set (kept @ [c]).
               i \<noteq> j \<longrightarrow> iou_pair (bs ! i) (bs ! j) \<le> t"
    proof (intro ballI impI)
      fix i j
      assume i: "i \<in> set (kept @ [c])" and j: "j \<in> set (kept @ [c])" and ne: "i \<noteq> j"
      consider "i \<in> set kept" "j \<in> set kept" | "i \<in> set kept" "j = c" | "i = c" "j \<in> set kept"
        using i j ne by auto
      then show "iou_pair (bs ! i) (bs ! j) \<le> t"
      proof cases
        case 1
        with Cons.prems(4) ne show ?thesis by blast
      next
        case 2
        with True show ?thesis by blast
      next
        case 3
        with True have "iou_pair (bs ! j) (bs ! i) \<le> t" by blast
        then show ?thesis by (simp add: iou_pair_sym [of "bs ! i"])
      qed
    qed
    from Cons.prems(2) have dc: "distinct cand" by simp
    from Cons.IH [OF d dc e p] show ?thesis
      unfolding nms_scan_keep [OF True] .
  next
    case False
    from Cons.prems have "distinct cand" "set kept \<inter> set cand = {}" by auto
    from Cons.IH [OF Cons.prems(1) this Cons.prems(4)] show ?thesis
      unfolding nms_scan_drop [OF False] .
  qed
qed

lemma ref_nms_contract: "nms_contract ref_nms"
  unfolding nms_contract_def
proof (intro allI)
  fix box :: "box tensor" and score :: "real tensor" and t :: real
  have d: "distinct (sort_key (\<lambda>i. - (rows score ! i)) [0..<length (rows box)])"
    by simp
  have "distinct (nms_scan (rows box) t [] (sort_key (\<lambda>i. - (rows score ! i)) [0..<length (rows box)])) \<and>
        (\<forall>i \<in> set (nms_scan (rows box) t [] (sort_key (\<lambda>i. - (rows score ! i)) [0..<length (rows box)])).
         \<forall>j \<in> set (nms_scan (rows box) t [] (sort_key (\<lambda>i. - (rows score ! i)) [0..<length (rows box)])).
            i \<noteq> j \<longrightarrow> iou_pair (rows box ! i) (rows box ! j) \<le> t)"
    by (rule nms_scan_invariant [OF _ d]) simp_all
  then show "distinct (rows (ref_nms box score t)) \<and>
        (\<forall>i \<in> set (rows (ref_nms box score t)). \<forall>j \<in> set (rows (ref_nms box score t)).
            i \<noteq> j \<longrightarrow> iou_pair (rows box ! i) (rows box ! j) \<le> t)"
    by (simp add: ref_nms_def)
qed

text \<open>The boxes kept for one class.\<close>

lemma detect_class_separated:
  assumes "detect_class self ext dev pred_score box_regression proposal image_shape c
           = Inr (box, label, score)"
    and "nms_contract (nms ext)"
  shows "sorted_wrt (\<lambda>a b. iou_pair a b \<le> nms_thresh self) (rows box) \<and>
         length (rows box) \<le> num_detections self \<and>
         rows label = replicate (length (rows box)) (int c)"
  using detect_class_Inr [OF assms(1)]
proof (elim exE conjE)
  fix box0 kept pb
  define found where "found = rows (nms ext (fst pb) (snd pb) (nms_thresh self))"
  define keep where "keep = take (num_detections self) found"
  assume b: "rows box = map (\<lambda>i. rows (fst pb) ! i)
              (take (num_detections self) (rows (nms ext (fst pb) (snd pb) (nms_thresh self))))"
    and l: "rows label = replicate (length (rows box)) (int c)"
  have b': "rows box = map (\<lambda>i. rows (fst pb) ! i) keep"
    using b unfolding keep_def found_def .
  have c: "distinct found \<and>
           (\<forall>i \<in> set found. \<forall>j \<in> set found.
              i \<noteq> j \<longrightarrow> iou_pair (rows (fst pb) ! i) (rows (fst pb) ! j) \<le> nms_thresh self)"
    using assms(2) unfolding nms_contract_def found_def by (elim allE)
  have dk: "distinct keep"
    unfolding keep_def using c by simp
  have sk: "set keep \<subseteq> set found"
    unfolding keep_def by (rule set_take_subset)
  have "sorted_wrt (\<lambda>i j. iou_pair (rows (fst pb) ! i) (rows (fst pb) ! j) \<le> nms_thresh self) keep"
    unfolding sorted_wrt_iff_nth_less
  proof (intro allI impI)
    fix i j assume ij: "i < j" and j: "j < length keep"
    then have "keep ! i \<noteq> keep ! j"
      using dk by (simp add: nth_eq_iff_index_eq)
    moreover have "keep ! i \<in> set found" "keep ! j \<in> set found"
      using ij j sk by auto
    ultimately show "iou_pair (rows (fst pb) ! (keep ! i)) (rows (fst pb) ! (keep ! j)) \<le> nms_thresh self"
      using c by blast
  qed
  then have s: "sorted_wrt (\<lambda>a b. iou_pair a b \<le> nms_thresh self) (rows box)"
    unfolding b' by (simp add: sorted_wrt_map)
  have n: "length (rows box) \<le> num_detections self"
    unfolding b' keep_def by simp
  from s n l show ?thesis by simp
qed

text \<open>Segments that carry distinct labels and are separated one by one are separated
  as a whole, and no label occurs more often than in its segment.\<close>

lemma labelled_segments:
  assumes "distinct cs"
    and "length segs = length cs"
    and "\<forall>k < length cs. sorted_wrt (\<lambda>a b. iou_pair a b \<le> t) (segs ! k) \<and> length (segs ! k) \<le> n"
  shows "sorted_wrt (\<lambda>p q. snd p = snd q \<longrightarrow> iou_pair (fst p) (fst q) \<le> t)
           (concat (map (\<lambda>(c, bs). map (\<lambda>b. (b, int c)) bs) (zip cs segs))) \<and>
         snd ` set (concat (map (\<lambda>(c, bs). map (\<lambda>b. (b, int c)) bs) (zip cs segs))) \<subseteq> int ` set cs \<and>
         (\<forall>v. length (filter (\<lambda>p. snd p = v)
                 (concat (map (\<lambda>(c, bs). map (\<lambda>b. (b, int c)) bs) (zip cs segs)))) \<le> n)"
  using assms(2,1,3)
proof (induction segs cs rule: list_induct2)
  case Nil
  then show ?case by simp
next
  case (Cons bs segs c cs)
  let ?rest = "concat (map (\<lambda>(c, bs). map (\<lambda>b. (b, int c)) bs) (zip cs segs))"
  let ?here = "map (\<lambda>b. (b, int c)) bs"
  have hd: "sorted_wrt (\<lambda>a b. iou_pair a b \<le> t) bs" "length bs \<le> n"
    using Cons.prems(2) by auto
  have tl: "\<forall>k < length cs. sorted_wrt (\<lambda>a b. iou_pair a b \<le> t) (segs ! k) \<and> length (segs ! k) \<le> n"
    using Cons.prems(2) by auto
  from Cons.prems(1) have dc: "distinct cs" and nc: "c \<notin> set cs" by auto
  from Cons.IH [OF dc tl] have
    r1: "sorted_wrt (\<lambda>p q. snd p = snd q \<longrightarrow> iou_pair (fst p) (fst q) \<le> t) ?rest"
    and r2: "snd ` set ?rest \<subseteq> int ` set cs"
    and r3: "\<forall>v. length (filter (\<lambda>p. snd p = v) ?rest) \<le> n"
    by auto
  have h1: "sorted_wrt (\<lambda>p q. snd p = snd q \<longrightarrow> iou_pair (fst p) (fst q) \<le> t) ?here"
    using hd(1) by (simp add: sorted_wrt_map)
  have cross: "\<forall>p \<in> set ?here. \<forall>q \<in> set ?rest. snd p \<noteq> snd q"
  proof (intro ballI)
    fix p q assume "p \<in> set ?here" and q: "q \<in> set ?rest"
    then have "snd p = int c" by auto
    moreover from q r2 have "snd q \<in> int ` set cs" by blast
    ultimately show "snd p \<noteq> snd q" using nc by auto
  qed
  have s: "sorted_wrt (\<lambda>p q. snd p = snd q \<longrightarrow> iou_pair (fst p) (fst q) \<le> t) (?here @ ?rest)"
    unfolding sorted_wrt_append using h1 r1 cross by blast
  have sub: "snd ` set (?here @ ?rest) \<subseteq> int ` set (c # cs)"
  proof -
    have a: "snd ` set ?here \<subseteq> insert (int c) (int ` set cs)"
      by auto
    have b: "snd ` set ?rest \<subseteq> insert (int c) (int ` set cs)"
      using r2 by (rule subset_trans) (rule subset_insertI)
    have "snd ` set (?here @ ?rest) = snd ` set ?here \<union> snd ` set ?rest"
      by (simp only: set_append image_Un)
    moreover have "int ` set (c # cs) = insert (int c) (int ` set cs)"
      by simp
    ultimately show ?thesis using a b by (simp only: Un_subset_iff)
  qed
  have cnt: "\<forall>v. length (filter (\<lambda>p. snd p = v) (?here @ ?rest)) \<le> n"
  proof
    fix v
    show "length (filter (\<lambda>p. snd p = v) (?here @ ?rest)) \<le> n"
    proof (cases "v = int c")
      case True
      have "\<forall>q \<in> set ?rest. snd q \<noteq> v"
      proof
        fix q assume "q \<in> set ?rest"
        then have "snd q \<in> snd ` set ?rest" by (rule imageI)
        with r2 have "snd q \<in> int ` set cs" by (rule subsetD)
        then obtain c' where "c' \<in> set cs" and "snd q = int c'" by (rule imageE)
        with nc True show "snd q \<noteq> v" by auto
      qed
      then have e: "filter (\<lambda>p. snd p = v) ?rest = []"
        by (simp add: filter_empty_conv)
      have "length (filter (\<lambda>p. snd p = v) ?here) \<le> length ?here"
        by (rule length_filter_le)
      also have "length ?here = length bs"
        by (rule length_map)
      also note hd(2)
      finally have "length (filter (\<lambda>p. snd p = v) ?here) \<le> n" .
      moreover have "filter (\<lambda>p. snd p = v) (?here @ ?rest) = filter (\<lambda>p. snd p = v) ?here"
        by (simp only: filter_append e append_Nil2)
      ultimately show ?thesis by (simp only:)
    next
      case False
      then have e: "filter (\<lambda>p. snd p = v) ?here = []"
        by (auto simp: filter_empty_conv)
      have "filter (\<lambda>p. snd p = v) (?here @ ?rest) = filter (\<lambda>p. snd p = v) ?rest"
        by (simp only: filter_append e append_Nil)
      moreover from r3 have "length (filter (\<lambda>p. snd p = v) ?rest) \<le> n" by (rule spec)
      ultimately show ?thesis by (simp only:)
    qed
  qed
  from s sub cnt show ?case by simp
qed

lemma tagged_fst:
  assumes "length cs = length bss"
  shows "map fst (concat (map (\<lambda>(c, bs). map (\<lambda>b. (b, int c)) bs) (zip cs bss))) = concat bss"
  using assms by (induction cs bss rule: list_induct2) (simp_all add: comp_def)

lemma tagged_snd:
  assumes "length cs = length segs"
    and "\<forall>k < length cs. lab (segs ! k) = replicate (length (bx (segs ! k))) (int (cs ! k))"
  shows "map snd (concat (map (\<lambda>(c, bs). map (\<lambda>b. (b, int c)) bs) (zip cs (map bx segs))))
         = concat (map lab segs)"
  using assms
proof (induction cs segs rule: list_induct2)
  case Nil
  then show ?case by simp
next
  case (Cons c cs seg segs)
  have h: "lab seg = replicate (length (bx seg)) (int c)"
    using Cons.prems by fastforce
  have t: "\<forall>k < length cs. lab (segs ! k) = replicate (length (bx (segs ! k))) (int (cs ! k))"
    using Cons.prems by fastforce
  have "map snd (map (\<lambda>b. (b, int c)) (bx seg)) = replicate (length (bx seg)) (int c)"
    by (simp add: comp_def map_replicate_const)
  with Cons.IH [OF t] h show ?case by simp
qed

lemma ex_contract: "nms_contract (nms ex_ext)"
  by (simp add: ex_ext_fields ref_nms_contract)

text \<open>
  C6 as stated: with an \<^verbatim>\<open>nms\<close> that meets its contract, no two boxes kept for a
  class have an IoU greater than or equal to the NMS threshold. The two proposals of
  the example image have an IoU of exactly 1/2. With the NMS threshold 1/2 the
  reference \<^verbatim>\<open>nms\<close>, which removes a box only when its IoU with a kept box is
  beyond the threshold, keeps both, and \<^verbatim>\<open>detect\<close> returns both for class 1: two
  kept boxes of one class whose IoU equals the threshold.
\<close>

theorem kept_boxes_at_threshold_counterexample:
  "nms_contract (nms ex_ext) \<and>
   detect (ex_infer_heads (1/2) (1/2)) ex_ext (fst (ex_infer_feature CPU)) (snd (ex_infer_feature CPU))
     (ex_infer_proposal CPU) (100, 100) =
   Inr [''boxes'' \<mapsto> BoxesV \<lparr>device = CPU, row_shape = [4], rows = [(0, 0, 2, 2), (0, 0, 2, 1)]\<rparr>,
        ''labels'' \<mapsto> IntsV \<lparr>device = CPU, row_shape = [], rows = [1, 1]\<rparr>,
        ''scores'' \<mapsto> RealsV \<lparr>device = CPU, row_shape = [], rows = [3/4, 1/2]\<rparr>] \<and>
   nms_thresh (ex_infer_heads (1/2) (1/2)) = 1/2 \<and>
   iou_pair (0, 0, 2, 2) (0, 0, 2, 1) = 1/2 \<and>
   nms_thresh (ex_infer_heads (1/2) (1/2)) \<le> iou_pair (0, 0, 2, 2) (0, 0, 2, 1)"
  by (simp add: ex_contract ex_detect_two ex_infer_fields(4) ex_iou)

text \<open>
  C6 as amended: for every inference invocation of \<^verbatim>\<open>detect\<close> that returns, with an
  \<^verbatim>\<open>nms\<close> that returns distinct positions of boxes of which no two have an IoU
  greater than the threshold, no two returned boxes with the same class label have an
  IoU greater than the configured NMS threshold (an IoU equal to it is possible), and
  no class label occurs more often than \<^verbatim>\<open>num_detections\<close>.
\<close>

theorem detect_kept_boxes_apart:
  assumes "detect self ext class_logit box_regression proposal image_shape = Inr result"
    and "nms_contract (nms ext)"
  shows "\<exists>b l s. result = [''boxes'' \<mapsto> BoxesV b, ''labels'' \<mapsto> IntsV l, ''scores'' \<mapsto> RealsV s] \<and>
           length (rows b) = length (rows l) \<and>
           (\<forall>i j. i < length (rows l) \<and> j < length (rows l) \<and> i \<noteq> j \<and> rows l ! i = rows l ! j
                  \<longrightarrow> iou_pair (rows b ! i) (rows b ! j) \<le> nms_thresh self) \<and>
           (\<forall>c. length (filter (\<lambda>x. x = c) (rows l)) \<le> num_detections self)"
proof -
  from detect_Inr [OF assms(1)] obtain num_classes pred_score br segs b l s where
    m: "map (detect_class self ext (device class_logit) pred_score br proposal image_shape)
          [1..<num_classes] = map Inr segs"
    and r: "result = [''boxes'' \<mapsto> BoxesV b, ''labels'' \<mapsto> IntsV l, ''scores'' \<mapsto> RealsV s]"
    and b: "rows b = concat (map (\<lambda>seg. rows (fst seg)) segs)"
    and l: "rows l = concat (map (\<lambda>seg. rows (fst (snd seg))) segs)"
    by blast
  define cs where "cs = [1..<num_classes]"
  define ps where
    "ps = concat (map (\<lambda>(c, bs). map (\<lambda>b. (b, int c)) bs) (zip cs (map (\<lambda>seg. rows (fst seg)) segs)))"
  have len: "length cs = length segs"
    using m unfolding cs_def by (metis length_map)
  have dc: "distinct cs"
    unfolding cs_def by simp
  have seg: "sorted_wrt (\<lambda>a b. iou_pair a b \<le> nms_thresh self) (rows (fst (segs ! k))) \<and>
             length (rows (fst (segs ! k))) \<le> num_detections self \<and>
             rows (fst (snd (segs ! k))) = replicate (length (rows (fst (segs ! k)))) (int (cs ! k))"
    if k: "k < length cs" for k
  proof -
    from m have "map (detect_class self ext (device class_logit) pred_score br proposal image_shape) cs ! k
                 = map Inr segs ! k"
      unfolding cs_def by simp
    with k len have "detect_class self ext (device class_logit) pred_score br proposal image_shape (cs ! k)
                 = Inr (fst (segs ! k), fst (snd (segs ! k)), snd (snd (segs ! k)))"
      by simp
    from detect_class_separated [OF this assms(2)] show ?thesis .
  qed
  have a1: "length (map (\<lambda>seg. rows (fst seg)) segs) = length cs"
    using len by simp
  have a2: "\<forall>k < length cs.
              sorted_wrt (\<lambda>a b. iou_pair a b \<le> nms_thresh self) (map (\<lambda>seg. rows (fst seg)) segs ! k) \<and>
              length (map (\<lambda>seg. rows (fst seg)) segs ! k) \<le> num_detections self"
    using seg len by simp
  from labelled_segments [OF dc a1 a2] have
    p1: "sorted_wrt (\<lambda>p q. snd p = snd q \<longrightarrow> iou_pair (fst p) (fst q) \<le> nms_thresh self) ps"
    and p3: "\<forall>v. length (filter (\<lambda>p. snd p = v) ps) \<le> num_detections self"
    unfolding ps_def by blast+
  have fb: "map fst ps = rows b"
    unfolding ps_def b by (rule tagged_fst) (simp add: len)
  have a3: "\<forall>k < length cs. rows (fst (snd (segs ! k)))
              = replicate (length (rows (fst (segs ! k)))) (int (cs ! k))"
    using seg by blast
  have fl: "map snd ps = rows l"
    unfolding ps_def l
    by (rule tagged_snd [OF len, where lab = "\<lambda>seg. rows (fst (snd seg))" and bx = "\<lambda>seg. rows (fst seg)"])
       (rule a3)
  have lb: "length (rows b) = length ps" using fb by (metis length_map)
  have ll: "length (rows l) = length ps" using fl by (metis length_map)
  have nb: "rows b ! i = fst (ps ! i)" if "i < length ps" for i
    using that fb by (metis nth_map)
  have nl: "rows l ! i = snd (ps ! i)" if "i < length ps" for i
    using that fl by (metis nth_map)
  have lt: "iou_pair (fst (ps ! i)) (fst (ps ! j)) \<le> nms_thresh self"
    if "i < j" "j < length ps" "snd (ps ! i) = snd (ps ! j)" for i j
    using p1 that unfolding sorted_wrt_iff_nth_less by blast
  have apart: "\<forall>i j. i < length (rows l) \<and> j < length (rows l) \<and> i \<noteq> j \<and> rows l ! i = rows l ! j
                  \<longrightarrow> iou_pair (rows b ! i) (rows b ! j) \<le> nms_thresh self"
  proof (intro allI impI, elim conjE)
    fix i j
    assume i: "i < length (rows l)" and j: "j < length (rows l)" and ne: "i \<noteq> j"
      and eq: "rows l ! i = rows l ! j"
    from i j ll have i': "i < length ps" and j': "j < length ps" by simp_all
    from eq have eq': "snd (ps ! i) = snd (ps ! j)"
      by (simp only: nl [OF i'] nl [OF j'])
    from ne consider "i < j" | "j < i" by linarith
    then have "iou_pair (fst (ps ! i)) (fst (ps ! j)) \<le> nms_thresh self"
    proof cases
      case 1
      from lt [OF 1 j' eq'] show ?thesis .
    next
      case 2
      from lt [OF 2 i' eq' [symmetric]] show ?thesis
        by (simp only: iou_pair_sym [of "fst (ps ! i)"])
    qed
    then show "iou_pair (rows b ! i) (rows b ! j) \<le> nms_thresh self"
      by (simp only: nb [OF i'] nb [OF j'])
  qed
  have count: "\<forall>c. length (filter (\<lambda>x. x = c) (rows l)) \<le> num_detections self"
  proof
    fix c
    have "filter (\<lambda>x. x = c) (map snd ps) = map snd (filter (\<lambda>p. snd p = c) ps)"
      by (simp add: filter_map comp_def)
    then have "length (filter (\<lambda>x. x = c) (rows l)) = length (filter (\<lambda>p. snd p = c) ps)"
      unfolding fl by simp
    with p3 show "length (filter (\<lambda>x. x = c) (rows l)) \<le> num_detections self"
      by simp
  qed
  have "length (rows b) = length (rows l)" using lb ll by simp
  with r apart count show ?thesis by blast
qed

text \<open>The amended C6 on the example image with NMS threshold 1/2: both boxes are
  returned for class 1. With the threshold 2/5, below their IoU, the box with the
  lower score is removed.\<close>

theorem detect_kept_boxes_apart_witness:
  "detect (ex_infer_heads (1/2) (1/2)) ex_ext (fst (ex_infer_feature CPU)) (snd (ex_infer_feature CPU))
     (ex_infer_proposal CPU) (100, 100) =
   Inr [''boxes'' \<mapsto> BoxesV \<lparr>device = CPU, row_shape = [4], rows = [(0, 0, 2, 2), (0, 0, 2, 1)]\<rparr>,
        ''labels'' \<mapsto> IntsV \<lparr>device = CPU, row_shape = [], rows = [1, 1]\<rparr>,
        ''scores'' \<mapsto> RealsV \<lparr>device = CPU, row_shape = [], rows = [3/4, 1/2]\<rparr>] \<and>
   nms_contract (nms ex_ext) \<and>
   (\<exists>b l s. [''boxes'' \<mapsto> BoxesV \<lparr>device = CPU, row_shape = [4], rows = [(0, 0, 2, 2), (0, 0, 2, 1)]\<rparr>,
              ''labels'' \<mapsto> IntsV \<lparr>device = CPU, row_shape = [], rows = [1, 1]\<rparr>,
              ''scores'' \<mapsto> RealsV \<lparr>device = CPU, row_shape = [], rows = [3/4, 1/2]\<rparr>]
             = [''boxes'' \<mapsto> BoxesV b, ''labels'' \<mapsto> IntsV l, ''scores'' \<mapsto> RealsV s] \<and>
            length (rows b) = length (rows l) \<and>
            (\<forall>i j. i < length (rows l) \<and> j < length (rows l) \<and> i \<noteq> j \<and> rows l ! i = rows l ! j
                  \<longrightarrow> iou_pair (rows b ! i) (rows b ! j) \<le> nms_thresh (ex_infer_heads (1/2) (1/2))) \<and>
            (\<forall>c. length (filter (\<lambda>x. x = c) (rows l)) \<le> num_detections (ex_infer_heads (1/2) (1/2)))) \<and>
   detect (ex_infer_heads (1/2) (2/5)) ex_ext (fst (ex_infer_feature CPU)) (snd (ex_infer_feature CPU))
     (ex_infer_proposal CPU) (100, 100) =
   Inr [''boxes'' \<mapsto> BoxesV \<lparr>device = CPU, row_shape = [4], rows = [(0, 0, 2, 2)]\<rparr>,
        ''labels'' \<mapsto> IntsV \<lparr>device = CPU, row_shape = [], rows = [1]\<rparr>,
        ''scores'' \<mapsto> RealsV \<lparr>device = CPU, row_shape = [], rows = [3/4]\<rparr>]"
proof -
  from detect_kept_boxes_apart [OF ex_detect_two [of CPU] ex_contract] ex_detect_two [of CPU] ex_contract
    ex_detect_one [of CPU]
  show ?thesis by blast
qed

section \<open>Properties of the forward pass\<close>

lemma detect_keys:
  assumes "detect self ext class_logit box_regression proposal image_shape = Inr result"
  shows "\<exists>b l s. result = [''boxes'' \<mapsto> BoxesV b, ''labels'' \<mapsto> IntsV l, ''scores'' \<mapsto> RealsV s]"
  using assms unfolding detect_def
  by (auto simp: Let_def ebind_Inr split: list.splits prod.splits)

lemma detect_no_masks:
  assumes "detect self ext class_logit box_regression proposal image_shape = Inr result"
  shows "result ''masks'' = None"
  using detect_keys [OF assms] by auto

lemma with_masks_fields:
  "mask_roi_pool (with_masks h) = Some ex_mask_roi_pool"
  "mask_predictor (with_masks h) = Some ex_mask_predictor"
  "train_mode (with_masks h) = train_mode h"
  "box_roi_pool (with_masks h) = box_roi_pool h"
  "box_predictor (with_masks h) = box_predictor h"
  by (simp_all add: with_masks_def)

lemma select_with_masks:
  "select_training_samples (with_masks h) ext proposal target
   = select_training_samples h ext proposal target"
  by (simp add: select_training_samples_def with_masks_def)

lemma detect_class_with_masks:
  "detect_class (with_masks h) ext dev ps br proposal image_shape c
   = detect_class h ext dev ps br proposal image_shape c"
  by (simp add: detect_class_def with_masks_def)

lemma detect_loop_with_masks:
  "detect_loop (with_masks h) ext dev ps br proposal image_shape cs bs ls ss
   = detect_loop h ext dev ps br proposal image_shape cs bs ls ss"
  by (induction cs arbitrary: bs ls ss) (simp_all add: detect_class_with_masks)

lemma detect_with_masks:
  "detect (with_masks h) ext class_logit box_regression proposal image_shape
   = detect h ext class_logit box_regression proposal image_shape"
  by (simp add: detect_def detect_loop_with_masks cong: list.case_cong)

lemma ex_predict:
  "box_predictor (ex_infer_heads st nt)
     (box_roi_pool (ex_infer_heads st nt) (ex_infer_feature d) proposal image_shape)
   = ex_infer_feature d"
  by (simp add: ex_infer_fields ex_box_roi_pool_def ex_box_predictor_def)

lemma ex_forward_two:
  "forward (ex_infer_heads (1/2) (1/2)) ex_ext (ex_infer_feature d) (ex_infer_proposal d) (100, 100) target =
     ([Call_box_roi_pool, Call_box_predictor],
      Inr ([''boxes'' \<mapsto> BoxesV \<lparr>device = d, row_shape = [4], rows = [(0, 0, 2, 2), (0, 0, 2, 1)]\<rparr>,
            ''labels'' \<mapsto> IntsV \<lparr>device = d, row_shape = [], rows = [1, 1]\<rparr>,
            ''scores'' \<mapsto> RealsV \<lparr>device = d, row_shape = [], rows = [3/4, 1/2]\<rparr>],
           Map.empty))"
  unfolding forward_def
  by (simp add: ex_infer_fields(2,9,10) ex_predict ex_detect_two Let_def case_prod_beta)

subsection \<open>C7: no positive sample in training\<close>

text \<open>
  C7: in training mode with both mask modules set, when sample selection returns no
  regression target, \<^verbatim>\<open>forward\<close> returns with a mask loss whose value is zero, and
  the calls it has made are the box pooler, the box predictor and the detection loss:
  neither the mask pooler nor the mask predictor is invoked.
\<close>

theorem no_positives_zero_mask_loss:
  assumes "train_mode self"
    and "mask_roi_pool self = Some mrp"
    and "mask_predictor self = Some mp"
    and "select_training_samples self ext proposal target = Inr (sp, mi, lab, rt)"
    and "length (rows rt) = 0"
  shows "\<exists>calls result losses zero.
           forward self ext feature proposal image_shape target = (calls, Inr (result, losses)) \<and>
           losses ''roi_mask_loss'' = Some zero \<and> sval zero = 0 \<and>
           calls = [Call_box_roi_pool, Call_box_predictor, Call_detection_loss] \<and>
           Call_mask_roi_pool \<notin> set calls \<and> Call_mask_predictor \<notin> set calls"
  using assms
  by (simp add: forward_def mask_branch_def slice_to_def Let_def split: prod.splits)

text \<open>C7 on the training image with a positive fraction of 0: the sampler draws no
  positive.\<close>

theorem no_positives_zero_mask_loss_witness:
  "train_mode (with_masks (ex_train_heads 0)) \<and>
   mask_roi_pool (with_masks (ex_train_heads 0)) = Some ex_mask_roi_pool \<and>
   mask_predictor (with_masks (ex_train_heads 0)) = Some ex_mask_predictor \<and>
   select_training_samples (with_masks (ex_train_heads 0)) ex_ext ex_proposal ex_target =
     Inr (\<lparr>device = CPU, row_shape = [4], rows = [(20, 20, 30, 30)]\<rparr>,
          \<lparr>device = CPU, row_shape = [], rows = [0]\<rparr>,
          \<lparr>device = CPU, row_shape = [], rows = [0]\<rparr>,
          \<lparr>device = CPU, row_shape = [4], rows = []\<rparr>) \<and>
   (\<exists>calls result losses zero.
      forward (with_masks (ex_train_heads 0)) ex_ext ex_train_feature ex_proposal (100, 100) ex_target
        = (calls, Inr (result, losses)) \<and>
      losses ''roi_mask_loss'' = Some zero \<and> sval zero = 0 \<and>
      calls = [Call_box_roi_pool, Call_box_predictor, Call_detection_loss] \<and>
      Call_mask_roi_pool \<notin> set calls \<and> Call_mask_predictor \<notin> set calls)"
proof -
  have a: "train_mode (with_masks (ex_train_heads 0))"
    by (simp add: with_masks_fields ex_train_fields)
  have s: "select_training_samples (with_masks (ex_train_heads 0)) ex_ext ex_proposal ex_target =
     Inr (\<lparr>device = CPU, row_shape = [4], rows = [(20, 20, 30, 30)]\<rparr>,
          \<lparr>device = CPU, row_shape = [], rows = [0]\<rparr>,
          \<lparr>device = CPU, row_shape = [], rows = [0]\<rparr>,
          \<lparr>device = CPU, row_shape = [4], rows = []\<rparr>)"
    by (simp add: select_with_masks ex_select0)
  have z: "length (rows \<lparr>device = CPU, row_shape = [4], rows = [] :: box list\<rparr>) = 0"
    by simp
  from no_positives_zero_mask_loss [OF a with_masks_fields(1) with_masks_fields(2) s z,
      of ex_train_feature "(100, 100)"] a s
  show ?thesis by (simp add: with_masks_fields)
qed

subsection \<open>C8: no detection in inference\<close>

text \<open>
  C8: in inference mode with both mask modules set, when \<^verbatim>\<open>detect\<close> returns no
  box, \<^verbatim>\<open>forward\<close> returns the detections with a \<^verbatim>\<open>masks\<close> entry that is an
  empty tensor of shape \<open>(0, 28, 28)\<close>, and the calls it has made are the box pooler and
  the box predictor only.
\<close>

theorem no_detections_empty_masks:
  assumes "\<not> train_mode self"
    and "mask_roi_pool self = Some mrp"
    and "mask_predictor self = Some mp"
    and "box_predictor self (box_roi_pool self feature proposal image_shape) = (class_logit, box_regression)"
    and "detect self ext class_logit box_regression proposal image_shape = Inr result"
    and "result ''boxes'' = Some (BoxesV b)"
    and "length (rows b) = 0"
  shows "forward self ext feature proposal image_shape target =
           ([Call_box_roi_pool, Call_box_predictor],
            Inr (result(''masks'' \<mapsto>
                   MasksV \<lparr>device = default_device ext, row_shape = [28, 28], rows = []\<rparr>),
                 Map.empty)) \<and>
         shape \<lparr>device = default_device ext, row_shape = [28, 28], rows = [] :: mask list\<rparr>
           = [0, 28, 28]"
  using assms
  by (simp add: forward_def mask_branch_def shape_def Let_def)

text \<open>C8 on the example image with score threshold 9/10: no score passes.\<close>

theorem no_detections_empty_masks_witness:
  "\<not> train_mode (with_masks (ex_infer_heads (9/10) (1/2))) \<and>
   mask_roi_pool (with_masks (ex_infer_heads (9/10) (1/2))) = Some ex_mask_roi_pool \<and>
   mask_predictor (with_masks (ex_infer_heads (9/10) (1/2))) = Some ex_mask_predictor \<and>
   detect (with_masks (ex_infer_heads (9/10) (1/2))) ex_ext (fst (ex_infer_feature CPU))
     (snd (ex_infer_feature CPU)) (ex_infer_proposal CPU) (100, 100) =
     Inr [''boxes'' \<mapsto> BoxesV \<lparr>device = CPU, row_shape = [4], rows = []\<rparr>,
          ''labels'' \<mapsto> IntsV \<lparr>device = CPU, row_shape = [], rows = []\<rparr>,
          ''scores'' \<mapsto> RealsV \<lparr>device = CPU, row_shape = [], rows = []\<rparr>] \<and>
   forward (with_masks (ex_infer_heads (9/10) (1/2))) ex_ext (ex_infer_feature CPU)
     (ex_infer_proposal CPU) (100, 100) ex_target =
     ([Call_box_roi_pool, Call_box_predictor],
      Inr ([''boxes'' \<mapsto> BoxesV \<lparr>device = CPU, row_shape = [4], rows = []\<rparr>,
            ''labels'' \<mapsto> IntsV \<lparr>device = CPU, row_shape = [], rows = []\<rparr>,
            ''scores'' \<mapsto> RealsV \<lparr>device = CPU, row_shape = [], rows = []\<rparr>,
            ''masks'' \<mapsto> MasksV \<lparr>device = CPU, row_shape = [28, 28], rows = []\<rparr>],
           Map.empty))"
proof -
  have a: "\<not> train_mode (with_masks (ex_infer_heads (9/10) (1/2)))"
    by (simp add: with_masks_fields ex_infer_fields)
  have p: "box_predictor (with_masks (ex_infer_heads (9/10) (1/2)))
             (box_roi_pool (with_masks (ex_infer_heads (9/10) (1/2))) (ex_infer_feature CPU)
                (ex_infer_proposal CPU) (100, 100))
           = (fst (ex_infer_feature CPU), snd (ex_infer_feature CPU))"
    by (simp add: with_masks_fields ex_predict)
  have d: "detect (with_masks (ex_infer_heads (9/10) (1/2))) ex_ext (fst (ex_infer_feature CPU))
     (snd (ex_infer_feature CPU)) (ex_infer_proposal CPU) (100, 100) =
     Inr [''boxes'' \<mapsto> BoxesV \<lparr>device = CPU, row_shape = [4], rows = []\<rparr>,
          ''labels'' \<mapsto> IntsV \<lparr>device = CPU, row_shape = [], rows = []\<rparr>,
          ''scores'' \<mapsto> RealsV \<lparr>device = CPU, row_shape = [], rows = []\<rparr>]"
    by (simp add: detect_with_masks ex_detect_none)
  have b: "[''boxes'' \<mapsto> BoxesV \<lparr>device = CPU, row_shape = [4], rows = []\<rparr>,
          ''labels'' \<mapsto> IntsV \<lparr>device = CPU, row_shape = [], rows = []\<rparr>,
          ''scores'' \<mapsto> RealsV \<lparr>device = CPU, row_shape = [], rows = []\<rparr>] ''boxes''
        = Some (BoxesV \<lparr>device = CPU, row_shape = [4], rows = []\<rparr>)"
    by simp
  have z: "length (rows \<lparr>device = CPU, row_shape = [4], rows = [] :: box list\<rparr>) = 0"
    by simp
  note t = no_detections_empty_masks
    [OF a with_masks_fields(1) with_masks_fields(2) p d b z, of ex_target, THEN conjunct1,
     unfolded ex_ext_fields(4)]
  from a with_masks_fields(1) [of "ex_infer_heads (9/10) (1/2)"]
    with_masks_fields(2) [of "ex_infer_heads (9/10) (1/2)"] d t
  show ?thesis by blast
qed

subsection \<open>C9: the target is not read in inference mode\<close>

text \<open>
  C9: in inference mode two invocations of \<^verbatim>\<open>forward\<close> that differ only in the
  target return the same calls, results and losses.
\<close>

theorem forward_inference_ignores_target:
  assumes "\<not> train_mode self"
  shows "forward self ext feature proposal image_shape target
         = forward self ext feature proposal image_shape target'"
  using assms
  by (auto simp: forward_def mask_branch_def Let_def split: prod.splits sum.splits option.splits)

text \<open>C9 on the example image, with and without ground-truth masks.\<close>

theorem forward_inference_ignores_target_witness:
  "\<not> train_mode (ex_infer_heads (1/2) (1/2)) \<and>
   ex_target \<noteq> ex_target\<lparr>masks := None\<rparr> \<and>
   forward (ex_infer_heads (1/2) (1/2)) ex_ext (ex_infer_feature CPU) (ex_infer_proposal CPU) (100, 100) ex_target
   = forward (ex_infer_heads (1/2) (1/2)) ex_ext (ex_infer_feature CPU) (ex_infer_proposal CPU) (100, 100)
       (ex_target\<lparr>masks := None\<rparr>)"
proof -
  have t: "\<not> train_mode (ex_infer_heads (1/2) (1/2))"
    by (simp add: ex_infer_fields)
  have d: "ex_target \<noteq> ex_target\<lparr>masks := None\<rparr>"
    by (simp add: ex_target_def)
  from forward_inference_ignores_target [OF t] t d show ?thesis by blast
qed

subsection \<open>C10: the mask modules of a new object\<close>

text \<open>
  C10: the constructor sets \<^verbatim>\<open>mask_roi_pool\<close> and \<^verbatim>\<open>mask_predictor\<close> to
  \<^verbatim>\<open>None\<close>, whatever its arguments; and as long as one of the two is
  \<^verbatim>\<open>None\<close>, \<^verbatim>\<open>forward\<close> calls no mask module and no mask loss, and what it
  returns has no \<^verbatim>\<open>masks\<close> entry and no \<^verbatim>\<open>roi_mask_loss\<close> entry.
\<close>

theorem mask_branch_needs_both_modules:
  "mask_roi_pool (init ext brp bp fg bg ns pf rw st nt nd tm) = None \<and>
   mask_predictor (init ext brp bp fg bg ns pf rw st nt nd tm) = None \<and>
   (mask_roi_pool self = None \<or> mask_predictor self = None \<longrightarrow>
    forward self ext' feature proposal image_shape target = (calls, out) \<longrightarrow>
      Call_mask_roi_pool \<notin> set calls \<and> Call_mask_predictor \<notin> set calls \<and>
      Call_mask_loss \<notin> set calls \<and>
      (\<forall>result losses. out = Inr (result, losses) \<longrightarrow>
         result ''masks'' = None \<and> losses ''roi_mask_loss'' = None))"
proof (intro conjI impI)
  show "mask_roi_pool (init ext brp bp fg bg ns pf rw st nt nd tm) = None"
    by (simp add: init_def)
  show "mask_predictor (init ext brp bp fg bg ns pf rw st nt nd tm) = None"
    by (simp add: init_def)
next
  assume none: "mask_roi_pool self = None \<or> mask_predictor self = None"
    and fw: "forward self ext' feature proposal image_shape target = (calls, out)"
  have skip: "(case (mask_roi_pool self, mask_predictor self) of
                 (Some a, Some b) \<Rightarrow> f a b | _ \<Rightarrow> g) = g" for f :: "_ \<Rightarrow> _ \<Rightarrow> call list \<times> (error + result \<times> losses)" and g
    using none by (auto split: option.splits)
  show "Call_mask_roi_pool \<notin> set calls"
    using fw unfolding forward_def skip
    by (auto simp: Let_def split: if_splits sum.splits option.splits prod.splits)
  show "Call_mask_predictor \<notin> set calls"
    using fw unfolding forward_def skip
    by (auto simp: Let_def split: if_splits sum.splits option.splits prod.splits)
  show "Call_mask_loss \<notin> set calls"
    using fw unfolding forward_def skip
    by (auto simp: Let_def split: if_splits sum.splits option.splits prod.splits)
  show "\<forall>result losses. out = Inr (result, losses) \<longrightarrow>
         result ''masks'' = None \<and> losses ''roi_mask_loss'' = None"
    using fw unfolding forward_def skip
    by (auto simp: Let_def map_sum_def dest: detect_no_masks split: if_splits sum.splits option.splits prod.splits)
qed

text \<open>C10 on the example image with the object as constructed.\<close>

theorem mask_branch_needs_both_modules_witness:
  "mask_roi_pool (ex_infer_heads (1/2) (1/2)) = None \<and>
   forward (ex_infer_heads (1/2) (1/2)) ex_ext (ex_infer_feature CPU) (ex_infer_proposal CPU) (100, 100) ex_target =
     ([Call_box_roi_pool, Call_box_predictor],
      Inr ([''boxes'' \<mapsto> BoxesV \<lparr>device = CPU, row_shape = [4], rows = [(0, 0, 2, 2), (0, 0, 2, 1)]\<rparr>,
            ''labels'' \<mapsto> IntsV \<lparr>device = CPU, row_shape = [], rows = [1, 1]\<rparr>,
            ''scores'' \<mapsto> RealsV \<lparr>device = CPU, row_shape = [], rows = [3/4, 1/2]\<rparr>],
           Map.empty)) \<and>
   Call_mask_roi_pool \<notin> set [Call_box_roi_pool, Call_box_predictor] \<and>
   Call_mask_predictor \<notin> set [Call_box_roi_pool, Call_box_predictor] \<and>
   [''boxes'' \<mapsto> BoxesV \<lparr>device = CPU, row_shape = [4], rows = [(0, 0, 2, 2), (0, 0, 2, 1)]\<rparr>,
    ''labels'' \<mapsto> IntsV \<lparr>device = CPU, row_shape = [], rows = [1, 1]\<rparr>,
    ''scores'' \<mapsto> RealsV \<lparr>device = CPU, row_shape = [], rows = [3/4, 1/2]\<rparr>] ''masks'' = None"
proof -
  have n: "mask_roi_pool (ex_infer_heads (1/2) (1/2)) = None"
    by (simp add: ex_infer_fields)
  note t = mask_branch_needs_both_modules
    [of ex_ext ex_box_roi_pool ex_box_predictor "1/2" "1/2" 4 "1/4" "(10, 10, 5, 5)" "1/2" "1/2" 100 False
        "ex_infer_heads (1/2) (1/2)" ex_ext "ex_infer_feature CPU" "ex_infer_proposal CPU" "(100, 100)"
        ex_target, THEN conjunct2, THEN conjunct2, rule_format, OF disjI1, OF n ex_forward_two]
  from t n ex_forward_two [of CPU ex_target] show ?thesis by simp
qed

subsection \<open>C4: the device of the tensors the mask branch creates\<close>

text \<open>
  C4 says that every output tensor is on the device of the inputs. \<^verbatim>\<open>detect\<close>
  passes \<^verbatim>\<open>device=device\<close> to \<^verbatim>\<open>torch.full\<close> (line 80) and line 130 passes
  \<^verbatim>\<open>device=label.device\<close>, but \<^verbatim>\<open>torch.empty((0, 28, 28))\<close> (line 118) and
  \<^verbatim>\<open>torch.tensor(0)\<close> (line 112) name no device. With the inputs on \<open>CUDA 0\<close> and
  torch's default device the CPU, the example image with no detection returns boxes,
  labels and scores on \<open>CUDA 0\<close> and masks on the CPU.
\<close>

theorem empty_masks_on_default_device:
  "forward (with_masks (ex_infer_heads (9/10) (1/2))) ex_ext (ex_infer_feature (CUDA 0))
     (ex_infer_proposal (CUDA 0)) (100, 100) ex_target =
     ([Call_box_roi_pool, Call_box_predictor],
      Inr ([''boxes'' \<mapsto> BoxesV \<lparr>device = CUDA 0, row_shape = [4], rows = []\<rparr>,
            ''labels'' \<mapsto> IntsV \<lparr>device = CUDA 0, row_shape = [], rows = []\<rparr>,
            ''scores'' \<mapsto> RealsV \<lparr>device = CUDA 0, row_shape = [], rows = []\<rparr>,
            ''masks'' \<mapsto> MasksV \<lparr>device = CPU, row_shape = [28, 28], rows = []\<rparr>],
           Map.empty)) \<and>
   device (ex_infer_proposal (CUDA 0)) = CUDA 0 \<and>
   device (fst (ex_infer_feature (CUDA 0))) = CUDA 0 \<and>
   device (snd (ex_infer_feature (CUDA 0))) = CUDA 0 \<and>
   CPU \<noteq> CUDA 0"
proof -
  have "forward (with_masks (ex_infer_heads (9/10) (1/2))) ex_ext (ex_infer_feature (CUDA 0))
     (ex_infer_proposal (CUDA 0)) (100, 100) ex_target =
     ([Call_box_roi_pool, Call_box_predictor],
      Inr ([''boxes'' \<mapsto> BoxesV \<lparr>device = CUDA 0, row_shape = [4], rows = []\<rparr>,
            ''labels'' \<mapsto> IntsV \<lparr>device = CUDA 0, row_shape = [], rows = []\<rparr>,
            ''scores'' \<mapsto> RealsV \<lparr>device = CUDA 0, row_shape = [], rows = []\<rparr>,
            ''masks'' \<mapsto> MasksV \<lparr>device = CPU, row_shape = [28, 28], rows = []\<rparr>],
           Map.empty))"
    unfolding forward_def
    by (simp add: with_masks_fields ex_infer_fields(2) ex_predict detect_with_masks ex_detect_none
          mask_branch_def ex_ext_fields Let_def case_prod_beta)
  then show ?thesis
    by (simp add: ex_infer_proposal_def ex_infer_feature_def)
qed

end
